theory Spec2Isabelle
  imports Complex_Main "HOL-Library.Multiset" "HOL-Library.Log_Nat"
begin

section \<open>JavaScript numbers\<close>

text \<open>
  The route engine computes with JavaScript numbers. They are modelled as reals: every
  arithmetic operation is exact, and the values \<open>NaN\<close> and \<open>Infinity\<close> appear only where
  the model names them (a missing coordinate, the initial \<open>Infinity\<close> of a minimum search).
  \<open>Math.round\<close> rounds half up; \<open>Math.atan2\<close> is the two-argument arc tangent.
\<close>

definition js_round :: "real \<Rightarrow> real" where
  \<comment> \<open>\<open>Math.round(x)\<close>\<close>
  "js_round x = real_of_int \<lfloor>x + 1 / 2\<rfloor>"

definition round_to :: "real \<Rightarrow> real \<Rightarrow> real" where
  \<comment> \<open>\<open>Math.round(x * k) / k\<close>\<close>
  "round_to k x = js_round (x * k) / k"

definition atan2 :: "real \<Rightarrow> real \<Rightarrow> real" where
  "atan2 y x =
     (if 0 < x then arctan (y / x)
      else if x < 0 then (if 0 \<le> y then arctan (y / x) + pi else arctan (y / x) - pi)
      else if 0 < y then pi / 2
      else if y < 0 then - (pi / 2)
      else 0)"

section \<open>Geo distance\<close>

text \<open>
  \<open>haversineDistance\<close> is written out three times in the sources, with the same body and
  the Earth radius 3958.8 (optimize-route.js) or 3959 (route-optimizer.js, the route
  utilities, routes-v2.js). The body is \<open>haversine\<close>, with the radius as its first argument.
\<close>

definition toRad :: "real \<Rightarrow> real" where
  "toRad deg = deg * (pi / 180)"

definition haversine :: "real \<Rightarrow> real \<Rightarrow> real \<Rightarrow> real \<Rightarrow> real \<Rightarrow> real" where
  "haversine R lat1 lon1 lat2 lon2 =
     (let dLat = toRad (lat2 - lat1);
          dLon = toRad (lon2 - lon1);
          a = sin (dLat / 2) * sin (dLat / 2) +
              cos (toRad lat1) * cos (toRad lat2) *
              sin (dLon / 2) * sin (dLon / 2);
          c = 2 * atan2 (sqrt a) (sqrt (1 - a))
      in R * c)"

definition haversineDistance :: "real \<Rightarrow> real \<Rightarrow> real \<Rightarrow> real \<Rightarrow> real" where
  \<comment> \<open>optimize-route.js\<close>
  "haversineDistance = haversine (39588 / 10)"

definition haversineDistance_3959 :: "real \<Rightarrow> real \<Rightarrow> real \<Rightarrow> real \<Rightarrow> real" where
  \<comment> \<open>route-optimizer.js, the route utilities, routes-v2.js\<close>
  "haversineDistance_3959 = haversine 3959"

lemma sin_half_toRad_swap:
  "sin (toRad (x - y) / 2) * sin (toRad (x - y) / 2) =
   sin (toRad (y - x) / 2) * sin (toRad (y - x) / 2)"
proof -
  have "toRad (x - y) / 2 = - (toRad (y - x) / 2)"
    by (simp add: toRad_def field_simps)
  then show ?thesis
    by (simp only: sin_minus)
qed

lemma haversine_sym: "haversine R a b c d = haversine R c d a b"
proof -
  have 1: "sin (toRad (c - a) / 2) * sin (toRad (c - a) / 2) =
           sin (toRad (a - c) / 2) * sin (toRad (a - c) / 2)"
    by (rule sin_half_toRad_swap)
  have 2: "sin (toRad (d - b) / 2) * sin (toRad (d - b) / 2) =
           sin (toRad (b - d) / 2) * sin (toRad (b - d) / 2)"
    by (rule sin_half_toRad_swap)
  have "sin (toRad (c - a) / 2) * sin (toRad (c - a) / 2) +
          cos (toRad a) * cos (toRad c) * sin (toRad (d - b) / 2) * sin (toRad (d - b) / 2) =
        sin (toRad (a - c) / 2) * sin (toRad (a - c) / 2) +
          cos (toRad c) * cos (toRad a) * sin (toRad (b - d) / 2) * sin (toRad (b - d) / 2)"
    using 1 2 by (simp add: mult.assoc mult.left_commute)
  then show ?thesis
    by (simp add: haversine_def Let_def)
qed

lemma haversine_self: "haversine R a b a b = 0"
  by (simp add: haversine_def Let_def toRad_def atan2_def)


section \<open>Tuning parameters and the cost/time estimator\<close>

text \<open>
  A value a caller may leave out is a \<open>real option\<close>: \<open>None\<close> is \<open>undefined\<close> (or
  \<open>null\<close>). \<open>x || d\<close> takes \<open>d\<close> for every falsy \<open>x\<close>, so also for 0; a destructuring
  default \<open>{x = d}\<close> takes \<open>d\<close> only for \<open>undefined\<close>.
\<close>

definition or_else :: "real option \<Rightarrow> real \<Rightarrow> real" where
  \<comment> \<open>\<open>x || d\<close>\<close>
  "or_else x d = (case x of None \<Rightarrow> d | Some v \<Rightarrow> if v = 0 then d else v)"

definition falsy :: "real option \<Rightarrow> bool" where
  \<comment> \<open>\<open>!x\<close>\<close>
  "falsy x = (case x of None \<Rightarrow> True | Some v \<Rightarrow> v = 0)"

definition default_to :: "real option \<Rightarrow> real \<Rightarrow> real" where
  \<comment> \<open>\<open>{x = d} = options\<close>\<close>
  "default_to x d = (case x of None \<Rightarrow> d | Some v \<Rightarrow> v)"

subsection \<open>route-optimizer.js: company settings and \<open>calculateRouteCosts\<close>\<close>

text \<open>
  \<open>getCompanySettings\<close> reads the \<open>settings\<close> column of the company's row; the argument
  of the model is what the query returned (\<open>None\<close>: no row, or no settings object).
\<close>

record stored_settings =
  stored_fuel_price :: "real option"
  stored_default_mpg :: "real option"
  stored_avg_speed :: "real option"
  stored_driver_hourly_rate :: "real option"
  stored_stop_time :: "real option"

record company_settings =
  fuel_price :: real
  default_mpg :: real
  avg_speed :: real
  driver_hourly_rate :: real
  stop_time :: real

definition no_settings :: stored_settings where
  \<comment> \<open>the object \<open>{}\<close>\<close>
  "no_settings = \<lparr>stored_fuel_price = None, stored_default_mpg = None,
     stored_avg_speed = None, stored_driver_hourly_rate = None, stored_stop_time = None\<rparr>"

definition getCompanySettings :: "stored_settings option \<Rightarrow> company_settings" where
  "getCompanySettings row =
     (let settings = (case row of None \<Rightarrow> no_settings | Some s \<Rightarrow> s)
      in \<lparr>fuel_price = or_else (stored_fuel_price settings) (35 / 10),
          default_mpg = or_else (stored_default_mpg settings) 8,
          avg_speed = or_else (stored_avg_speed settings) 35,
          driver_hourly_rate = or_else (stored_driver_hourly_rate settings) 25,
          stop_time = or_else (stored_stop_time settings) 15\<rparr>)"

datatype api_error = Distance_required

record settings_used =
  used_mpg :: real
  used_fuel_price :: real
  used_avg_speed :: real
  used_driver_hourly_rate :: real
  used_stop_time_minutes :: real

record route_costs =
  distance_miles :: real
  fuel_gallons :: real
  fuel_cost :: real
  drive_time_minutes :: real
  stop_time_minutes :: real
  total_time_minutes :: real
  labor_cost :: real
  total_cost :: real
  settings_used :: settings_used

text \<open>
  \<open>calculateRouteCosts\<close>: the request body carries \<open>distance_miles\<close> and \<open>num_stops\<close>;
  \<open>truck_mpg\<close> is the \<open>mpg\<close> column of the truck the body names (\<open>None\<close>: no
  \<open>truck_id\<close>, or no such truck).
\<close>

definition calculateRouteCosts ::
  "stored_settings option \<Rightarrow> real option \<Rightarrow> real option \<Rightarrow> real option \<Rightarrow> api_error + route_costs"
where
  "calculateRouteCosts row distance_miles_in num_stops truck_mpg =
     (if falsy distance_miles_in then Inl Distance_required
      else
        let d = or_else distance_miles_in 0;
            settings = getCompanySettings row;
            mpg0 = or_else (Some (default_mpg settings)) 8;
            mpg = (case truck_mpg of None \<Rightarrow> mpg0 | Some v \<Rightarrow> if v = 0 then mpg0 else v);
            fuelPrice = or_else (Some (fuel_price settings)) (35 / 10);
            avgSpeed = or_else (Some (avg_speed settings)) 35;
            driverRate = or_else (Some (driver_hourly_rate settings)) 25;
            stopTime = or_else (Some (stop_time settings)) 15;
            fuelGallons = d / mpg;
            fuelCost = fuelGallons * fuelPrice;
            driveTime = (d / avgSpeed) * 60;
            totalStopTime = or_else num_stops 0 * stopTime;
            totalTime = driveTime + totalStopTime;
            laborCost = (totalTime / 60) * driverRate;
            totalCost = fuelCost + laborCost
        in Inr \<lparr>distance_miles = d,
                fuel_gallons = round_to 100 fuelGallons,
                fuel_cost = round_to 100 fuelCost,
                drive_time_minutes = js_round driveTime,
                stop_time_minutes = totalStopTime,
                total_time_minutes = js_round totalTime,
                labor_cost = round_to 100 laborCost,
                total_cost = round_to 100 totalCost,
                settings_used = \<lparr>used_mpg = mpg, used_fuel_price = fuelPrice,
                  used_avg_speed = avgSpeed, used_driver_hourly_rate = driverRate,
                  used_stop_time_minutes = stopTime\<rparr>\<rparr>)"

subsection \<open>optimize-route.js: \<open>calculateRouteMetrics\<close>\<close>

text \<open>
  A route is a list of location indices and a distance matrix a list of rows;
  \<open>distanceMatrix[a][b]\<close> is \<open>m ! a ! b\<close>. The theorems about routes take matrices in
  which the indices of the route are rows and columns, so no read is out of range. A
  segment keeps the indices of its two locations; the formatted duration string of the
  result is left out.
\<close>

type_synonym route = "nat list"
type_synonym matrix = "real list list"

definition DEFAULT_FUEL_PRICE :: real where "DEFAULT_FUEL_PRICE = 35 / 10"
definition DEFAULT_AVG_SPEED :: real where "DEFAULT_AVG_SPEED = 35"
definition DEFAULT_STOP_DURATION :: real where "DEFAULT_STOP_DURATION = 20"

record metrics_options =
  fuelPrice :: "real option"
  truckMpg :: "real option"
  avgSpeed :: "real option"
  stopDuration :: "real option"

record segment =
  seg_from :: nat
  seg_to :: nat
  seg_distance :: real
  seg_estimatedTime :: real

record route_metrics =
  totalMiles :: real
  fuelGallons :: real
  fuelCost :: real
  driveTimeMinutes :: real
  stopTimeMinutes :: real
  totalTimeMinutes :: real
  numStops :: int
  segments :: "segment list"

definition metrics_leg :: "route \<Rightarrow> matrix \<Rightarrow> real \<Rightarrow> nat \<Rightarrow> real \<times> segment list \<Rightarrow> real \<times> segment list" where
  \<comment> \<open>the body of the loop over \<open>i\<close>\<close>
  "metrics_leg route distanceMatrix avgSpeed' i acc =
     (let fromIdx = route ! i;
          toIdx = route ! (i + 1);
          distance = distanceMatrix ! fromIdx ! toIdx
      in (fst acc + distance,
          snd acc @ [\<lparr>seg_from = fromIdx, seg_to = toIdx,
                      seg_distance = round_to 100 distance,
                      seg_estimatedTime = js_round ((distance / avgSpeed') * 60)\<rparr>]))"

definition calculateRouteMetrics :: "route \<Rightarrow> matrix \<Rightarrow> metrics_options \<Rightarrow> route_metrics" where
  "calculateRouteMetrics route distanceMatrix options =
     (let fuelPrice' = default_to (fuelPrice options) DEFAULT_FUEL_PRICE;
          truckMpg' = default_to (truckMpg options) 8;
          avgSpeed' = default_to (avgSpeed options) DEFAULT_AVG_SPEED;
          stopDuration' = default_to (stopDuration options) DEFAULT_STOP_DURATION;
          acc = fold (metrics_leg route distanceMatrix avgSpeed') [0..<length route - 1] (0, []);
          totalMiles' = fst acc;
          numStops' = int (length route) - 2;
          fuelGallons' = totalMiles' / truckMpg';
          fuelCost' = fuelGallons' * fuelPrice';
          driveTimeMinutes' = (totalMiles' / avgSpeed') * 60;
          stopTimeMinutes' = real_of_int numStops' * stopDuration';
          totalTimeMinutes' = driveTimeMinutes' + stopTimeMinutes'
      in \<lparr>totalMiles = round_to 100 totalMiles',
          fuelGallons = round_to 100 fuelGallons',
          fuelCost = round_to 100 fuelCost',
          driveTimeMinutes = js_round driveTimeMinutes',
          stopTimeMinutes = js_round stopTimeMinutes',
          totalTimeMinutes = js_round totalTimeMinutes',
          numStops = numStops',
          segments = snd acc\<rparr>)"


section \<open>The route utilities: stops, nearest neighbour, 2-opt, \<open>optimizeRoute\<close>\<close>

text \<open>
  A coordinate of a stop or of the depot is a number, \<open>NaN\<close>, or missing (\<open>undefined\<close> or
  \<open>null\<close>). The validity filter of the sources, \<open>s.lat && s.lng\<close>, tests truthiness: a
  number is truthy when it is not 0. The optimizers compute distances only between
  locations that passed that filter, and the theorems about the other functions take
  locations with valid coordinates, so \<open>num\<close> is read only at numbers.
\<close>

datatype coord = Missing | NaN | Num real

fun truthy :: "coord \<Rightarrow> bool" where
  "truthy (Num x) = (x \<noteq> 0)"
| "truthy _ = False"

fun num :: "coord \<Rightarrow> real" where
  "num (Num x) = x"
| "num _ = 0"

record stop =
  stop_id :: nat
  lat :: coord
  lng :: coord

definition valid_coordinates :: "stop \<Rightarrow> bool" where
  \<comment> \<open>\<open>s => s.lat && s.lng\<close>\<close>
  "valid_coordinates s = (truthy (lat s) \<and> truthy (lng s))"

definition stopDistance :: "stop \<Rightarrow> stop \<Rightarrow> real" where
  \<comment> \<open>\<open>haversineDistance(a.lat, a.lng, b.lat, b.lng)\<close>, radius 3959\<close>
  "stopDistance a b = haversineDistance_3959 (num (lat a)) (num (lng a)) (num (lat b)) (num (lng b))"

definition calculateRouteDistance :: "stop list \<Rightarrow> stop \<Rightarrow> real" where
  "calculateRouteDistance stops depot =
     (if stops = [] then 0
      else
        let totalDistance = 0 + stopDistance depot (stops ! 0);
            totalDistance = fold (\<lambda>i t. t + stopDistance (stops ! i) (stops ! (i + 1)))
                              [0..<length stops - 1] totalDistance;
            totalDistance = totalDistance + stopDistance (stops ! (length stops - 1)) depot
        in totalDistance)"

definition buildDistanceMatrix_3959 :: "stop list \<Rightarrow> matrix" where
  \<comment> \<open>the utilities and route-optimizer.js: zero-filled, then the cells above the
      diagonal computed and mirrored\<close>
  "buildDistanceMatrix_3959 points =
     map (\<lambda>i. map (\<lambda>j. if i < j then stopDistance (points ! i) (points ! j)
                       else if j < i then stopDistance (points ! j) (points ! i)
                       else 0)
                [0..<length points])
         [0..<length points]"

text \<open>
  The minimum search of nearest neighbour keeps the pair \<open>(nearest, nearestDist)\<close>;
  \<open>nearestDist = None\<close> is the initial \<open>Infinity\<close>, below which every number lies. The
  set \<open>visited\<close> is the list of its elements in insertion order.
\<close>

fun below :: "real \<Rightarrow> real option \<Rightarrow> bool" where
  "below x None = True"
| "below x (Some d) = (x < d)"

definition set_add :: "nat \<Rightarrow> nat list \<Rightarrow> nat list" where
  "set_add x visited = (if x \<in> set visited then visited else visited @ [x])"

definition nn_scan_step :: "matrix \<Rightarrow> nat \<Rightarrow> nat list \<Rightarrow> nat \<Rightarrow> nat option \<times> real option \<Rightarrow> nat option \<times> real option" where
  "nn_scan_step distMatrix current visited i st =
     (if i \<notin> set visited \<and> below (distMatrix ! current ! i) (snd st)
      then (Some i, Some (distMatrix ! current ! i))
      else st)"

definition nn_scan :: "matrix \<Rightarrow> nat \<Rightarrow> nat list \<Rightarrow> nat list \<Rightarrow> nat option" where
  \<comment> \<open>the \<open>for\<close> loop over the candidate indices \<open>is\<close>\<close>
  "nn_scan distMatrix current visited is =
     fst (fold (nn_scan_step distMatrix current visited) is (None, None))"

partial_function (option) nn_util_while ::
  "matrix \<Rightarrow> nat \<Rightarrow> nat list \<Rightarrow> nat list \<Rightarrow> nat \<Rightarrow> nat list option"
where
  "nn_util_while distMatrix n visited route current =
     (if length route < n then
        (case nn_scan distMatrix current visited [1..<n + 1] of
           None \<Rightarrow> nn_util_while distMatrix n visited route current
         | Some nearest \<Rightarrow>
             nn_util_while distMatrix n (set_add nearest visited) (route @ [nearest - 1]) nearest)
      else Some route)"

definition nearestNeighbor_util :: "stop list \<Rightarrow> stop \<Rightarrow> stop list option" where
  "nearestNeighbor_util stops depot =
     (if length stops \<le> 1 then Some stops
      else
        let allPoints = depot # stops;
            distMatrix = buildDistanceMatrix_3959 allPoints;
            n = length stops
        in map_option (map (\<lambda>i. stops ! i)) (nn_util_while distMatrix n [0] [] 0))"

text \<open>
  \<open>reverse_slice r a b\<close> is \<open>[...r.slice(0, a), ...r.slice(a, b).reverse(), ...r.slice(b)]\<close>,
  the reversal both slice-based 2-opt variants build. It keeps the length of the route
  when \<open>a \<le> b \<le> r.length\<close>, as in every call of the loops; the loops read
  \<open>bestRoute.length\<close> afresh in each round, and their termination orders account for
  the other case.
\<close>

definition reverse_slice :: "'a list \<Rightarrow> nat \<Rightarrow> nat \<Rightarrow> 'a list" where
  "reverse_slice r a b = take a r @ rev (take (b - a) (drop a r)) @ drop b r"

function twoOpt_util_j :: "stop \<Rightarrow> nat \<Rightarrow> nat \<Rightarrow> stop list \<times> real \<times> bool \<Rightarrow> stop list \<times> real \<times> bool" where
  "twoOpt_util_j depot i j (bestRoute, bestDistance, improved) =
     (if j < length bestRoute then
        (let newRoute = reverse_slice bestRoute (i + 1) (j + 1);
             newDistance = calculateRouteDistance newRoute depot
         in if newDistance < bestDistance - 1 / 100
            then twoOpt_util_j depot i (j + 1) (newRoute, newDistance, True)
            else twoOpt_util_j depot i (j + 1) (bestRoute, bestDistance, improved))
      else (bestRoute, bestDistance, improved))"
  by pat_completeness auto
termination
  by (relation "measures [\<lambda>(depot, i, j, r, d, b). if i \<le> j then 0 else i - j,
                          \<lambda>(depot, i, j, r, d, b). length r - j]")
     (auto simp: reverse_slice_def)

declare twoOpt_util_j.simps [simp del]

lemma length_reverse_slice:
  "a \<le> b \<Longrightarrow> b \<le> length r \<Longrightarrow> length (reverse_slice r a b) = length r"
  by (simp add: reverse_slice_def)

lemma length_twoOpt_util_j:
  "i \<le> j \<Longrightarrow> length (fst (twoOpt_util_j depot i j st)) = length (fst st)"
proof (induction depot i j st rule: twoOpt_util_j.induct)
  case (1 depot i j bestRoute bestDistance improved)
  show ?case
  proof (cases "j < length bestRoute")
    case True
    with 1 show ?thesis
      by (simp add: Let_def length_reverse_slice twoOpt_util_j.simps [of depot i j])
  next
    case False
    then show ?thesis by (simp add: twoOpt_util_j.simps [of depot i j])
  qed
qed

function twoOpt_util_i :: "stop \<Rightarrow> nat \<Rightarrow> stop list \<times> real \<times> bool \<Rightarrow> stop list \<times> real \<times> bool" where
  "twoOpt_util_i depot i (bestRoute, bestDistance, improved) =
     (if i + 1 < length bestRoute
      then twoOpt_util_i depot (i + 1)
             (twoOpt_util_j depot i (i + 2) (bestRoute, bestDistance, improved))
      else (bestRoute, bestDistance, improved))"
  by pat_completeness auto
termination
  by (relation "measure (\<lambda>(depot, i, st). length (fst st) - i)")
     (auto simp: length_twoOpt_util_j)

declare twoOpt_util_i.simps [simp del]

function twoOpt_util_while :: "stop \<Rightarrow> nat \<Rightarrow> nat \<Rightarrow> stop list \<times> real \<times> bool \<Rightarrow> stop list" where
  "twoOpt_util_while depot maxIterations iterations (bestRoute, bestDistance, improved) =
     (if improved \<and> iterations < maxIterations
      then twoOpt_util_while depot maxIterations (iterations + 1)
             (twoOpt_util_i depot 0 (bestRoute, bestDistance, False))
      else bestRoute)"
  by pat_completeness auto
termination
  by (relation "measure (\<lambda>(depot, maxIterations, iterations, st). maxIterations - iterations)")
     auto

declare twoOpt_util_while.simps [simp del]

definition twoOptImprove_util :: "stop list \<Rightarrow> stop \<Rightarrow> nat \<Rightarrow> stop list" where
  "twoOptImprove_util stops depot maxIterations =
     (if length stops \<le> 2 then stops
      else twoOpt_util_while depot maxIterations 0
             (stops, calculateRouteDistance stops depot, True))"

subsection \<open>\<open>optimizeRoute\<close> of the route utilities\<close>

text \<open>
  The result object is flattened: \<open>savings.miles\<close> is \<open>savings_miles\<close>, and so on. The
  per-segment breakdown and the arrival estimates, display data derived from the same
  optimized stops, are left out; \<open>optimized_stops\<close> are the stops in visiting order
  (\<open>stop_number\<close> is the position plus one). A depot that is \<open>null\<close> or \<open>undefined\<close> is
  \<open>None\<close>; a missing stop list behaves as the empty one. The result is \<open>None\<close> when the
  nearest-neighbour loop does not return.
\<close>

datatype optimize_error =
  No_stops_to_optimize
  | Distribution_center_location_required
  | No_stops_have_valid_GPS_coordinates

record optimize_options =
  options_fuelPricePerGallon :: "real option"
  options_truckMpg :: "real option"
  options_avgSpeedMph :: "real option"
  options_stopDurationMinutes :: "real option"
  options_driverHourlyRate :: "real option"

record optimize_result =
  original_distance :: real
  original_stops :: "stop list"
  optimized_distance :: real
  optimized_stops :: "stop list"
  savings_miles :: real
  savings_percent :: real
  savings_fuelGallons :: real
  savings_fuelCost :: real
  costs_totalMiles :: real
  costs_fuelGallons :: real
  costs_fuelCost :: real
  costs_laborCost :: real
  costs_totalCost :: real
  time_drivingMinutes :: real
  time_stopMinutes :: real
  time_totalMinutes :: real
  time_totalHours :: real
  parameters_fuelPricePerGallon :: real
  parameters_truckMpg :: real
  parameters_avgSpeedMph :: real
  parameters_stopDurationMinutes :: real
  parameters_driverHourlyRate :: real

definition optimizeRoute_util ::
  "stop list \<Rightarrow> stop option \<Rightarrow> optimize_options \<Rightarrow> (optimize_error + optimize_result) option"
where
  "optimizeRoute_util stops depot_in options =
     (let fuelPricePerGallon = default_to (options_fuelPricePerGallon options) (35 / 10);
          truckMpg' = default_to (options_truckMpg options) 8;
          avgSpeedMph = default_to (options_avgSpeedMph options) 35;
          stopDurationMinutes = default_to (options_stopDurationMinutes options) 20;
          driverHourlyRate = default_to (options_driverHourlyRate options) 25
      in
      if stops = [] then Some (Inl No_stops_to_optimize)
      else (case depot_in of
        None \<Rightarrow> Some (Inl Distribution_center_location_required)
      | Some depot \<Rightarrow>
        (if \<not> truthy (lat depot) \<or> \<not> truthy (lng depot)
         then Some (Inl Distribution_center_location_required)
         else
          (let validStops = filter valid_coordinates stops in
           (if validStops = [] then Some (Inl No_stops_have_valid_GPS_coordinates)
            else
            (let originalDistance = calculateRouteDistance validStops depot in
             (case nearestNeighbor_util validStops depot of
               None \<Rightarrow> None
             | Some nnRoute \<Rightarrow>
             (
              let optimizedStops = twoOptImprove_util nnRoute depot 100;
                  optimizedDistance = calculateRouteDistance optimizedStops depot;
                  fuelGallons' = optimizedDistance / truckMpg';
                  fuelCost' = fuelGallons' * fuelPricePerGallon;
                  drivingTimeHours = optimizedDistance / avgSpeedMph;
                  stopTimeHours = (real (length validStops) * stopDurationMinutes) / 60;
                  totalTimeHours = drivingTimeHours + stopTimeHours;
                  laborCost = totalTimeHours * driverHourlyRate;
                  totalCost = fuelCost' + laborCost;
                  milesSaved = originalDistance - optimizedDistance;
                  percentSaved = (if originalDistance > 0
                                  then (milesSaved / originalDistance) * 100 else 0);
                  fuelSaved = milesSaved / truckMpg';
                  costSaved = fuelSaved * fuelPricePerGallon
              in Some (Inr \<lparr>
                   original_distance = round_to 10 originalDistance,
                   original_stops = validStops,
                   optimized_distance = round_to 10 optimizedDistance,
                   optimized_stops = optimizedStops,
                   savings_miles = round_to 10 milesSaved,
                   savings_percent = round_to 10 percentSaved,
                   savings_fuelGallons = round_to 10 fuelSaved,
                   savings_fuelCost = round_to 100 costSaved,
                   costs_totalMiles = round_to 10 optimizedDistance,
                   costs_fuelGallons = round_to 10 fuelGallons',
                   costs_fuelCost = round_to 100 fuelCost',
                   costs_laborCost = round_to 100 laborCost,
                   costs_totalCost = round_to 100 totalCost,
                   time_drivingMinutes = js_round (drivingTimeHours * 60),
                   time_stopMinutes = js_round (stopTimeHours * 60),
                   time_totalMinutes = js_round (totalTimeHours * 60),
                   time_totalHours = round_to 10 totalTimeHours,
                   parameters_fuelPricePerGallon = fuelPricePerGallon,
                   parameters_truckMpg = truckMpg',
                   parameters_avgSpeedMph = avgSpeedMph,
                   parameters_stopDurationMinutes = stopDurationMinutes,
                   parameters_driverHourlyRate = driverHourlyRate\<rparr>)))))))))"

section \<open>optimize-route.js and route-optimizer.js: matrix-based nearest neighbour and 2-opt\<close>

definition locationDistance :: "stop \<Rightarrow> stop \<Rightarrow> real" where
  \<comment> \<open>\<open>haversineDistance(a.lat, a.lng, b.lat, b.lng)\<close>, radius 3958.8\<close>
  "locationDistance a b = haversineDistance (num (lat a)) (num (lng a)) (num (lat b)) (num (lng b))"

definition buildDistanceMatrix :: "stop list \<Rightarrow> matrix" where
  \<comment> \<open>optimize-route.js: every cell off the diagonal computed\<close>
  "buildDistanceMatrix locations =
     map (\<lambda>i. map (\<lambda>j. if i = j then 0 else locationDistance (locations ! i) (locations ! j))
                [0..<length locations])
         [0..<length locations]"

text \<open>
  The loop of \<open>nearestNeighbor\<close> is the same in both files. It leaves \<open>visited\<close> and
  \<open>route\<close> as they are when the scan finds no index, and then runs forever.
\<close>

partial_function (option) nn_while ::
  "matrix \<Rightarrow> nat \<Rightarrow> nat list \<Rightarrow> route \<Rightarrow> nat \<Rightarrow> route option"
where
  "nn_while distanceMatrix n visited route current =
     (if length visited < n then
        (case nn_scan distanceMatrix current visited [0..<n] of
           None \<Rightarrow> nn_while distanceMatrix n visited route current
         | Some nearest \<Rightarrow>
             nn_while distanceMatrix n (set_add nearest visited) (route @ [nearest]) nearest)
      else Some route)"


definition nearestNeighbor :: "matrix \<Rightarrow> nat \<Rightarrow> route option" where
  \<comment> \<open>optimize-route.js: the route closed with \<open>route.push(startIndex)\<close>\<close>
  "nearestNeighbor distanceMatrix startIndex =
     map_option (\<lambda>route. route @ [startIndex])
       (nn_while distanceMatrix (length distanceMatrix) [startIndex] [startIndex] startIndex)"

subsection \<open>optimize-route.js: \<open>twoOpt\<close>\<close>

definition calculateTwoOptDelta :: "route \<Rightarrow> matrix \<Rightarrow> nat \<Rightarrow> nat \<Rightarrow> real" where
  "calculateTwoOptDelta route distanceMatrix i j =
     (let a = route ! (i - 1);
          b = route ! i;
          c = route ! j;
          d = route ! (j + 1);
          currentDist = distanceMatrix ! a ! b + distanceMatrix ! c ! d;
          newDist = distanceMatrix ! a ! c + distanceMatrix ! b ! d
      in newDist - currentDist)"

definition twoOptSwap :: "route \<Rightarrow> nat \<Rightarrow> nat \<Rightarrow> route" where
  "twoOptSwap route i j = reverse_slice route i (j + 1)"

function twoOpt_j :: "matrix \<Rightarrow> nat \<Rightarrow> nat \<Rightarrow> route \<times> bool \<Rightarrow> route \<times> bool" where
  "twoOpt_j distanceMatrix i j (bestRoute, improved) =
     (if j + 1 < length bestRoute then
        (if calculateTwoOptDelta bestRoute distanceMatrix i j < - (1 / 1000)
         then twoOpt_j distanceMatrix i (j + 1) (twoOptSwap bestRoute i j, True)
         else twoOpt_j distanceMatrix i (j + 1) (bestRoute, improved))
      else (bestRoute, improved))"
  by pat_completeness auto
termination
  by (relation "measures [\<lambda>(m, i, j, r, b). if i \<le> j + 1 then 0 else i - j,
                          \<lambda>(m, i, j, r, b). length r - j]")
     (auto simp: twoOptSwap_def reverse_slice_def)

declare twoOpt_j.simps [simp del]

lemma length_twoOpt_j:
  "i \<le> j + 1 \<Longrightarrow> length (fst (twoOpt_j m i j st)) = length (fst st)"
proof (induction m i j st rule: twoOpt_j.induct)
  case (1 m i j bestRoute improved)
  show ?case
  proof (cases "j + 1 < length bestRoute")
    case True
    with 1 show ?thesis
      by (simp add: twoOptSwap_def length_reverse_slice twoOpt_j.simps [of m i j])
  next
    case False
    then show ?thesis by (simp add: twoOpt_j.simps [of m i j])
  qed
qed

function twoOpt_i :: "matrix \<Rightarrow> nat \<Rightarrow> route \<times> bool \<Rightarrow> route \<times> bool" where
  "twoOpt_i distanceMatrix i (bestRoute, improved) =
     (if i + 2 < length bestRoute
      then twoOpt_i distanceMatrix (i + 1) (twoOpt_j distanceMatrix i (i + 1) (bestRoute, improved))
      else (bestRoute, improved))"
  by pat_completeness auto
termination
  by (relation "measure (\<lambda>(m, i, st). length (fst st) - i)")
     (auto simp: length_twoOpt_j)

declare twoOpt_i.simps [simp del]

function twoOpt_while :: "matrix \<Rightarrow> nat \<Rightarrow> nat \<Rightarrow> route \<times> bool \<Rightarrow> route" where
  "twoOpt_while distanceMatrix maxIterations iterations (bestRoute, improved) =
     (if improved \<and> iterations < maxIterations
      then twoOpt_while distanceMatrix maxIterations (iterations + 1)
             (twoOpt_i distanceMatrix 1 (bestRoute, False))
      else bestRoute)"
  by pat_completeness auto
termination
  by (relation "measure (\<lambda>(m, maxIterations, iterations, st). maxIterations - iterations)") auto

declare twoOpt_while.simps [simp del]

definition twoOpt :: "route \<Rightarrow> matrix \<Rightarrow> nat \<Rightarrow> route" where
  "twoOpt route distanceMatrix maxIterations =
     twoOpt_while distanceMatrix maxIterations 0 (route, True)"

subsection \<open>route-optimizer.js: \<open>twoOptImprove\<close> and \<open>calculateTotalDistance\<close>\<close>

function reverse_in_place :: "route \<Rightarrow> nat \<Rightarrow> nat \<Rightarrow> route" where
  \<comment> \<open>the \<open>while (left < right)\<close> loop that swaps the two ends of the segment\<close>
  "reverse_in_place newRoute left right =
     (if left < right
      then reverse_in_place
             ((newRoute[left := newRoute ! right])[right := newRoute ! left])
             (left + 1) (right - 1)
      else newRoute)"
  by pat_completeness auto
termination
  by (relation "measure (\<lambda>(r, left, right). right - left)") auto

declare reverse_in_place.simps [simp del]

lemma length_reverse_in_place: "length (reverse_in_place r left right) = length r"
proof (induction r left right rule: reverse_in_place.induct)
  case (1 newRoute left right)
  then show ?case
    by (simp add: reverse_in_place.simps [of newRoute left right])
qed










subsection \<open>optimize-route.js: \<open>optimizeRoute\<close> after its queries\<close>

text \<open>
  The handler first reads the request and the database (distribution centre, truck,
  customers or orders); the model starts from what the queries returned: the depot row,
  the stop rows with \<open>lat\<close> and \<open>lng\<close> already through \<open>parseFloat\<close>, the \<open>fuel_price\<close> of
  the body and the truck's miles per gallon. The result is \<open>None\<close> when the
  nearest-neighbour loop does not return.
\<close>

datatype route_error =
  Distribution_center_is_missing_GPS_coordinates
  | No_stops_with_valid_GPS_coordinates

definition valid_coordinates_nan :: "stop \<Rightarrow> bool" where
  \<comment> \<open>\<open>s => s.lat && s.lng && !isNaN(s.lat) && !isNaN(s.lng)\<close>\<close>
  "valid_coordinates_nan s = (truthy (lat s) \<and> truthy (lng s) \<and> lat s \<noteq> NaN \<and> lng s \<noteq> NaN)"

record optimize_response =
  response_stops :: "stop list"
  response_metrics :: route_metrics
  response_original_metrics :: route_metrics
  response_savings_miles :: real
  response_savings_fuel_cost :: real
  response_savings_time_minutes :: real
  response_savings_percentage :: real
  response_route_order :: "nat list"

definition optimizeRoute ::
  "stop \<Rightarrow> stop list \<Rightarrow> real option \<Rightarrow> real \<Rightarrow> (route_error + optimize_response) option"
where
  "optimizeRoute depot stops_in fuel_price_in truckMpg_in =
     (if \<not> truthy (lat depot) \<or> \<not> truthy (lng depot)
      then Some (Inl Distribution_center_is_missing_GPS_coordinates)
      else
       (let stops = filter valid_coordinates_nan stops_in in
        (if stops = [] then Some (Inl No_stops_with_valid_GPS_coordinates)
         else
          (let locations = depot # stops;
               distanceMatrix = buildDistanceMatrix locations
           in (case nearestNeighbor distanceMatrix 0 of
                 None \<Rightarrow> None
               | Some nnRoute \<Rightarrow>
                 (let optimizedRoute = twoOpt nnRoute distanceMatrix 1000;
                      options = \<lparr>fuelPrice = Some (or_else fuel_price_in DEFAULT_FUEL_PRICE),
                                 truckMpg = Some truckMpg_in, avgSpeed = None, stopDuration = None\<rparr>;
                      originalMetrics = calculateRouteMetrics nnRoute distanceMatrix options;
                      optimizedMetrics = calculateRouteMetrics optimizedRoute distanceMatrix options;
                      orderedStops = map (\<lambda>idx. locations ! idx) (butlast (tl optimizedRoute));
                      milesSaved = totalMiles originalMetrics - totalMiles optimizedMetrics;
                      costSaved = fuelCost originalMetrics - fuelCost optimizedMetrics;
                      timeSaved = totalTimeMinutes originalMetrics - totalTimeMinutes optimizedMetrics
                  in Some (Inr \<lparr>
                       response_stops = orderedStops,
                       response_metrics = optimizedMetrics,
                       response_original_metrics = originalMetrics,
                       response_savings_miles = round_to 100 milesSaved,
                       response_savings_fuel_cost = round_to 100 costSaved,
                       response_savings_time_minutes = js_round timeSaved,
                       response_savings_percentage =
                         (if totalMiles originalMetrics > 0
                          then js_round ((milesSaved / totalMiles originalMetrics) * 100) else 0),
                       response_route_order =
                         map (\<lambda>idx. stop_id (locations ! idx)) optimizedRoute\<rparr>)))))))"

section \<open>The stop clusterer\<close>

text \<open>
  \<open>clusterStops\<close> draws its first centroid with \<open>Math.random()\<close>; the draw is the
  argument \<open>u\<close> of the model, a number with \<open>0 \<le> u < 1\<close>. \<open>numClusters\<close> is an integer.
  With no valid stop the first centroid is \<open>undefined\<close>: no distance to it is ever
  computed, since every loop that computes one ranges over the valid stops; with one
  cluster requested the result is then the empty list, and with more the seeding loop
  finds no farthest stop and does not end. The list of centroids is never empty where
  \<open>Math.min\<close> is taken over it, and after seeding it has \<open>numClusters\<close> elements, so the
  index of the nearest cluster is an index of \<open>clusters\<close>.
\<close>

definition random_stop :: "real \<Rightarrow> stop list \<Rightarrow> stop option" where
  \<comment> \<open>\<open>validStops[Math.floor(Math.random() * validStops.length)]\<close>\<close>
  "random_stop u validStops =
     (let k = \<lfloor>u * real (length validStops)\<rfloor>
      in if 0 \<le> k \<and> nat k < length validStops then Some (validStops ! nat k) else None)"

definition farthest_step :: "stop list \<Rightarrow> stop \<Rightarrow> real \<times> stop option \<Rightarrow> real \<times> stop option" where
  "farthest_step centroids stop st =
     (let minDistToCentroid = Min (set (map (\<lambda>c. stopDistance stop c) centroids))
      in if minDistToCentroid > fst st then (minDistToCentroid, Some stop) else st)"

partial_function (option) seed_centroids :: "stop list \<Rightarrow> int \<Rightarrow> stop list \<Rightarrow> stop list option" where
  "seed_centroids validStops numClusters centroids =
     (if int (length centroids) < numClusters then
        (case snd (fold (farthest_step centroids) validStops (- 1, None)) of
           None \<Rightarrow> seed_centroids validStops numClusters centroids
         | Some farthest \<Rightarrow> seed_centroids validStops numClusters (centroids @ [farthest]))
      else Some centroids)"

definition nearest_step :: "stop list \<Rightarrow> stop \<Rightarrow> nat \<Rightarrow> nat \<times> real option \<Rightarrow> nat \<times> real option" where
  "nearest_step centroids stop i st =
     (let dist = stopDistance stop (centroids ! i)
      in if below dist (snd st) then (i, Some dist) else st)"

definition nearest_cluster :: "stop list \<Rightarrow> stop \<Rightarrow> nat" where
  "nearest_cluster centroids stop =
     fst (fold (nearest_step centroids stop) [0..<length centroids] (0, None))"

definition assign_stop :: "stop list \<Rightarrow> stop \<Rightarrow> stop list list \<Rightarrow> stop list list" where
  \<comment> \<open>\<open>clusters[nearestCluster].push(stop)\<close>\<close>
  "assign_stop centroids stop clusters =
     (let nearestCluster = nearest_cluster centroids stop
      in clusters[nearestCluster := clusters ! nearestCluster @ [stop]])"

definition clusterStops :: "real \<Rightarrow> stop list \<Rightarrow> int \<Rightarrow> stop list list option" where
  "clusterStops u stops numClusters =
     (if stops = [] \<or> numClusters \<le> 0 then Some []
      else if int (length stops) \<le> numClusters then Some (map (\<lambda>stop. [stop]) stops)
      else
       (let validStops = filter valid_coordinates stops in
        (case random_stop u validStops of
           None \<Rightarrow> (if validStops = [] \<and> numClusters = 1 then Some [] else None)
         | Some first \<Rightarrow>
           (case seed_centroids validStops numClusters [first] of
              None \<Rightarrow> None
            | Some centroids \<Rightarrow>
              (let clusters = fold (assign_stop centroids) validStops
                                (replicate (nat numClusters) [])
               in Some (filter (\<lambda>c. length c > 0) clusters))))))"

section \<open>Double-precision numbers\<close>

text \<open>
  A JavaScript number is an IEEE 754 binary64 value: not-a-number, an infinity, or a
  finite number. \<open>Fin 0\<close> stands for both zeros: the functions below never divide by a zero
  they computed, nor pass one to \<open>Math.atan2\<close>, so its sign is not observable.
  Every arithmetic operation rounds its exact result to the nearest double, ties to the
  even significand (\<open>rnd\<close>): 53 significant bits, the exponent of the unit in the last
  place not below \<open>- 1074\<close>, and overflow to an infinity from \<open>2 ^ 1024\<close> on.
\<close>

datatype double = Nan | PosInf | NegInf | Fin real

definition round_even :: "real \<Rightarrow> int" where
  "round_even x =
    (let f = \<lfloor>x\<rfloor>; d = x - of_int f in
     if d < 1 / 2 then f else if 1 / 2 < d then f + 1 else if even f then f else f + 1)"

definition binade :: "real \<Rightarrow> int" where
  \<comment> \<open>the \<open>e\<close> with \<open>2 ^ e \<le> \<bar>x\<bar> < 2 ^ (e + 1)\<close>, for \<open>x\<close> other than 0\<close>
  "binade x =
    (if 1 \<le> \<bar>x\<bar> then bitlen \<lfloor>\<bar>x\<bar>\<rfloor> - 1 else - bitlen (\<lceil>1 / \<bar>x\<bar>\<rceil> - 1))"

definition ulp :: "real \<Rightarrow> real" where
  "ulp x = 2 powi (max (binade x) (- 1022) - 52)"

definition rnd :: "real \<Rightarrow> double" where
  "rnd x =
    (if x = 0 then Fin 0
     else let y = of_int (round_even (x / ulp x)) * ulp x in
       if 2 ^ 1024 \<le> \<bar>y\<bar> then (if 0 < x then PosInf else NegInf) else Fin y)"

fun fneg :: "double \<Rightarrow> double" where
  "fneg (Fin a) = Fin (- a)"
| "fneg PosInf = NegInf"
| "fneg NegInf = PosInf"
| "fneg Nan = Nan"

fun fadd :: "double \<Rightarrow> double \<Rightarrow> double" where
  "fadd (Fin a) (Fin b) = rnd (a + b)"
| "fadd Nan y = Nan"
| "fadd x Nan = Nan"
| "fadd PosInf NegInf = Nan"
| "fadd NegInf PosInf = Nan"
| "fadd PosInf y = PosInf"
| "fadd NegInf y = NegInf"
| "fadd x PosInf = PosInf"
| "fadd x NegInf = NegInf"

definition fsub :: "double \<Rightarrow> double \<Rightarrow> double" where
  "fsub x y = fadd x (fneg y)"

fun fmul :: "double \<Rightarrow> double \<Rightarrow> double" where
  "fmul (Fin a) (Fin b) = rnd (a * b)"
| "fmul Nan y = Nan"
| "fmul x Nan = Nan"
| "fmul PosInf (Fin b) = (if b = 0 then Nan else if 0 < b then PosInf else NegInf)"
| "fmul NegInf (Fin b) = (if b = 0 then Nan else if 0 < b then NegInf else PosInf)"
| "fmul (Fin a) PosInf = (if a = 0 then Nan else if 0 < a then PosInf else NegInf)"
| "fmul (Fin a) NegInf = (if a = 0 then Nan else if 0 < a then NegInf else PosInf)"
| "fmul PosInf PosInf = PosInf"
| "fmul PosInf NegInf = NegInf"
| "fmul NegInf PosInf = NegInf"
| "fmul NegInf NegInf = PosInf"

fun fdiv :: "double \<Rightarrow> double \<Rightarrow> double" where
  "fdiv (Fin a) (Fin b) =
     (if b = 0 then (if a = 0 then Nan else if 0 < a then PosInf else NegInf)
      else rnd (a / b))"
| "fdiv Nan y = Nan"
| "fdiv x Nan = Nan"
| "fdiv PosInf (Fin b) = (if b < 0 then NegInf else PosInf)"
| "fdiv NegInf (Fin b) = (if b < 0 then PosInf else NegInf)"
| "fdiv (Fin a) PosInf = Fin 0"
| "fdiv (Fin a) NegInf = Fin 0"
| "fdiv PosInf PosInf = Nan"
| "fdiv PosInf NegInf = Nan"
| "fdiv NegInf PosInf = Nan"
| "fdiv NegInf NegInf = Nan"

fun fsqrt :: "double \<Rightarrow> double" where
  "fsqrt (Fin a) = (if a < 0 then Nan else rnd (sqrt a))"
| "fsqrt PosInf = PosInf"
| "fsqrt NegInf = Nan"
| "fsqrt Nan = Nan"

fun flt :: "double \<Rightarrow> double \<Rightarrow> bool" where
  "flt (Fin a) (Fin b) = (a < b)"
| "flt Nan y = False"
| "flt x Nan = False"
| "flt PosInf y = False"
| "flt x NegInf = False"
| "flt NegInf y = True"
| "flt x PosInf = True"

fun Math_round :: "double \<Rightarrow> double" where
  "Math_round (Fin a) = Fin (of_int \<lfloor>a + 1 / 2\<rfloor>)"
| "Math_round x = x"

fun truthy_f64 :: "double \<Rightarrow> bool" where
  "truthy_f64 (Fin a) = (a \<noteq> 0)"
| "truthy_f64 Nan = False"
| "truthy_f64 x = True"

definition round_to_f64 :: "real \<Rightarrow> double \<Rightarrow> double" where
  \<comment> \<open>\<open>Math.round(x * k) / k\<close>\<close>
  "round_to_f64 k x = fdiv (Math_round (fmul x (Fin k))) (Fin k)"

section \<open>The estimators in double precision\<close>

definition or_else_f64 :: "double option \<Rightarrow> double \<Rightarrow> double" where
  \<comment> \<open>\<open>x || d\<close>\<close>
  "or_else_f64 x d = (case x of None \<Rightarrow> d | Some v \<Rightarrow> if truthy_f64 v then v else d)"

definition falsy_f64 :: "double option \<Rightarrow> bool" where
  \<comment> \<open>\<open>!x\<close>\<close>
  "falsy_f64 x = (case x of None \<Rightarrow> True | Some v \<Rightarrow> \<not> truthy_f64 v)"

definition default_to_f64 :: "double option \<Rightarrow> double \<Rightarrow> double" where
  \<comment> \<open>\<open>{x = d} = options\<close>\<close>
  "default_to_f64 x d = (case x of None \<Rightarrow> d | Some v \<Rightarrow> v)"

record stored_settings_f64 =
  stored_fuel_price_f64 :: "double option"
  stored_default_mpg_f64 :: "double option"
  stored_avg_speed_f64 :: "double option"
  stored_driver_hourly_rate_f64 :: "double option"
  stored_stop_time_f64 :: "double option"

record company_settings_f64 =
  fuel_price_f64 :: double
  default_mpg_f64 :: double
  avg_speed_f64 :: double
  driver_hourly_rate_f64 :: double
  stop_time_f64 :: double

definition no_settings_f64 :: stored_settings_f64 where
  "no_settings_f64 = \<lparr>stored_fuel_price_f64 = None, stored_default_mpg_f64 = None,
     stored_avg_speed_f64 = None, stored_driver_hourly_rate_f64 = None,
     stored_stop_time_f64 = None\<rparr>"

definition getCompanySettings_f64 :: "stored_settings_f64 option \<Rightarrow> company_settings_f64" where
  "getCompanySettings_f64 row =
     (let settings = (case row of None \<Rightarrow> no_settings_f64 | Some s \<Rightarrow> s)
      in \<lparr>fuel_price_f64 = or_else_f64 (stored_fuel_price_f64 settings) (Fin (35 / 10)),
          default_mpg_f64 = or_else_f64 (stored_default_mpg_f64 settings) (Fin 8),
          avg_speed_f64 = or_else_f64 (stored_avg_speed_f64 settings) (Fin 35),
          driver_hourly_rate_f64 = or_else_f64 (stored_driver_hourly_rate_f64 settings) (Fin 25),
          stop_time_f64 = or_else_f64 (stored_stop_time_f64 settings) (Fin 15)\<rparr>)"

datatype api_error_f64 = Distance_required_f64

record settings_used_f64 =
  used_mpg_f64 :: double
  used_fuel_price_f64 :: double
  used_avg_speed_f64 :: double
  used_driver_hourly_rate_f64 :: double
  used_stop_time_minutes_f64 :: double

record route_costs_f64 =
  distance_miles_f64 :: double
  fuel_gallons_f64 :: double
  fuel_cost_f64 :: double
  drive_time_minutes_f64 :: double
  stop_time_minutes_f64 :: double
  total_time_minutes_f64 :: double
  labor_cost_f64 :: double
  total_cost_f64 :: double
  settings_used_f64 :: settings_used_f64

definition calculateRouteCosts_f64 ::
  "stored_settings_f64 option \<Rightarrow> double option \<Rightarrow> double option \<Rightarrow> double option \<Rightarrow>
   api_error_f64 + route_costs_f64"
where
  "calculateRouteCosts_f64 row distance_miles_in num_stops truck_mpg =
     (if falsy_f64 distance_miles_in then Inl Distance_required_f64
      else
        let d = or_else_f64 distance_miles_in (Fin 0);
            settings = getCompanySettings_f64 row;
            mpg0 = or_else_f64 (Some (default_mpg_f64 settings)) (Fin 8);
            mpg = or_else_f64 truck_mpg mpg0;
            fuelPrice = or_else_f64 (Some (fuel_price_f64 settings)) (Fin (35 / 10));
            avgSpeed = or_else_f64 (Some (avg_speed_f64 settings)) (Fin 35);
            driverRate = or_else_f64 (Some (driver_hourly_rate_f64 settings)) (Fin 25);
            stopTime = or_else_f64 (Some (stop_time_f64 settings)) (Fin 15);
            fuelGallons = fdiv d mpg;
            fuelCost = fmul fuelGallons fuelPrice;
            driveTime = fmul (fdiv d avgSpeed) (Fin 60);
            totalStopTime = fmul (or_else_f64 num_stops (Fin 0)) stopTime;
            totalTime = fadd driveTime totalStopTime;
            laborCost = fmul (fdiv totalTime (Fin 60)) driverRate;
            totalCost = fadd fuelCost laborCost
        in Inr \<lparr>distance_miles_f64 = d,
                fuel_gallons_f64 = round_to_f64 100 fuelGallons,
                fuel_cost_f64 = round_to_f64 100 fuelCost,
                drive_time_minutes_f64 = Math_round driveTime,
                stop_time_minutes_f64 = totalStopTime,
                total_time_minutes_f64 = Math_round totalTime,
                labor_cost_f64 = round_to_f64 100 laborCost,
                total_cost_f64 = round_to_f64 100 totalCost,
                settings_used_f64 = \<lparr>used_mpg_f64 = mpg, used_fuel_price_f64 = fuelPrice,
                  used_avg_speed_f64 = avgSpeed, used_driver_hourly_rate_f64 = driverRate,
                  used_stop_time_minutes_f64 = stopTime\<rparr>\<rparr>)"


section \<open>Geo distance in double precision\<close>

text \<open>
  ECMAScript leaves the results of \<open>Math.sin\<close>, \<open>Math.cos\<close> and \<open>Math.atan2\<close> to the engine
  (they are implementation-approximated), so the three functions are a parameter of every
  function that computes a distance. \<open>Math.sqrt\<close> and the four arithmetic operations are
  correctly rounded, and \<open>Math.PI\<close> is the double nearest to \<open>\<pi>\<close>.
\<close>

record libm =
  Math_sin :: "double \<Rightarrow> double"
  Math_cos :: "double \<Rightarrow> double"
  Math_atan2 :: "double \<Rightarrow> double \<Rightarrow> double"

definition Math_PI :: double where
  "Math_PI = Fin (884279719003555 / 281474976710656)"

definition toRad_f64 :: "double \<Rightarrow> double" where
  "toRad_f64 deg = fmul deg (fdiv Math_PI (Fin 180))"

definition haversine_f64 :: "libm \<Rightarrow> double \<Rightarrow> double \<Rightarrow> double \<Rightarrow> double \<Rightarrow> double \<Rightarrow> double" where
  "haversine_f64 L R lat1 lon1 lat2 lon2 =
     (let dLat = toRad_f64 (fsub lat2 lat1);
          dLon = toRad_f64 (fsub lon2 lon1);
          a = fadd (fmul (Math_sin L (fdiv dLat (Fin 2))) (Math_sin L (fdiv dLat (Fin 2))))
                (fmul (fmul (fmul (Math_cos L (toRad_f64 lat1)) (Math_cos L (toRad_f64 lat2)))
                        (Math_sin L (fdiv dLon (Fin 2))))
                   (Math_sin L (fdiv dLon (Fin 2))));
          c = fmul (Fin 2) (Math_atan2 L (fsqrt a) (fsqrt (fsub (Fin 1) a)))
      in fmul R c)"

definition haversineDistance_f64 :: "libm \<Rightarrow> double \<Rightarrow> double \<Rightarrow> double \<Rightarrow> double \<Rightarrow> double" where
  \<comment> \<open>optimize-route.js: \<open>R = 3958.8\<close>\<close>
  "haversineDistance_f64 L = haversine_f64 L (rnd (39588 / 10))"

definition haversineDistance_3959_f64 :: "libm \<Rightarrow> double \<Rightarrow> double \<Rightarrow> double \<Rightarrow> double \<Rightarrow> double" where
  \<comment> \<open>the route utilities and route-optimizer.js: \<open>R = 3959\<close>\<close>
  "haversineDistance_3959_f64 L = haversine_f64 L (Fin 3959)"

section \<open>The route utilities in double precision\<close>

text \<open>
  A coordinate is a number or missing (\<open>None\<close>: \<open>undefined\<close>); a missing coordinate in
  arithmetic is \<open>NaN\<close>.
\<close>

record stop_f64 =
  stop_id_f64 :: nat
  lat_f64 :: "double option"
  lng_f64 :: "double option"

definition number :: "double option \<Rightarrow> double" where
  "number x = (case x of None \<Rightarrow> Nan | Some v \<Rightarrow> v)"

definition valid_coordinates_f64 :: "stop_f64 \<Rightarrow> bool" where
  \<comment> \<open>\<open>s => s.lat && s.lng\<close>\<close>
  "valid_coordinates_f64 s = (\<not> falsy_f64 (lat_f64 s) \<and> \<not> falsy_f64 (lng_f64 s))"

definition stopDistance_f64 :: "libm \<Rightarrow> stop_f64 \<Rightarrow> stop_f64 \<Rightarrow> double" where
  \<comment> \<open>\<open>haversineDistance(a.lat, a.lng, b.lat, b.lng)\<close>, radius 3959\<close>
  "stopDistance_f64 L a b =
     haversineDistance_3959_f64 L (number (lat_f64 a)) (number (lng_f64 a))
       (number (lat_f64 b)) (number (lng_f64 b))"

definition calculateRouteDistance_f64 :: "libm \<Rightarrow> stop_f64 list \<Rightarrow> stop_f64 \<Rightarrow> double" where
  "calculateRouteDistance_f64 L stops depot =
     (if stops = [] then Fin 0
      else
        let totalDistance = fadd (Fin 0) (stopDistance_f64 L depot (stops ! 0));
            totalDistance = fold (\<lambda>i t. fadd t (stopDistance_f64 L (stops ! i) (stops ! (i + 1))))
                              [0..<length stops - 1] totalDistance;
            totalDistance = fadd totalDistance (stopDistance_f64 L (stops ! (length stops - 1)) depot)
        in totalDistance)"

type_synonym matrix_f64 = "double list list"

definition buildDistanceMatrix_3959_f64 :: "libm \<Rightarrow> stop_f64 list \<Rightarrow> matrix_f64" where
  "buildDistanceMatrix_3959_f64 L points =
     map (\<lambda>i. map (\<lambda>j. if i < j then stopDistance_f64 L (points ! i) (points ! j)
                       else if j < i then stopDistance_f64 L (points ! j) (points ! i)
                       else Fin 0)
                [0..<length points])
         [0..<length points]"

definition nn_scan_step_f64 ::
  "matrix_f64 \<Rightarrow> nat \<Rightarrow> nat list \<Rightarrow> nat \<Rightarrow> nat option \<times> double \<Rightarrow> nat option \<times> double" where
  "nn_scan_step_f64 distMatrix current visited i st =
     (if i \<notin> set visited \<and> flt (distMatrix ! current ! i) (snd st)
      then (Some i, distMatrix ! current ! i)
      else st)"

definition nn_scan_f64 :: "matrix_f64 \<Rightarrow> nat \<Rightarrow> nat list \<Rightarrow> nat list \<Rightarrow> nat option" where
  \<comment> \<open>the \<open>for\<close> loop over the candidate indices \<open>is\<close>, from \<open>nearestDist = Infinity\<close>\<close>
  "nn_scan_f64 distMatrix current visited is =
     fst (fold (nn_scan_step_f64 distMatrix current visited) is (None, PosInf))"

partial_function (option) nn_util_while_f64 ::
  "matrix_f64 \<Rightarrow> nat \<Rightarrow> nat list \<Rightarrow> nat list \<Rightarrow> nat \<Rightarrow> nat list option"
where
  "nn_util_while_f64 distMatrix n visited route current =
     (if length route < n then
        (case nn_scan_f64 distMatrix current visited [1..<n + 1] of
           None \<Rightarrow> nn_util_while_f64 distMatrix n visited route current
         | Some nearest \<Rightarrow>
             nn_util_while_f64 distMatrix n (set_add nearest visited) (route @ [nearest - 1]) nearest)
      else Some route)"

definition nearestNeighbor_util_f64 :: "libm \<Rightarrow> stop_f64 list \<Rightarrow> stop_f64 \<Rightarrow> stop_f64 list option" where
  "nearestNeighbor_util_f64 L stops depot =
     (if length stops \<le> 1 then Some stops
      else
        let allPoints = depot # stops;
            distMatrix = buildDistanceMatrix_3959_f64 L allPoints;
            n = length stops
        in map_option (map (\<lambda>i. stops ! i)) (nn_util_while_f64 distMatrix n [0] [] 0))"

function twoOpt_util_j_f64 ::
  "libm \<Rightarrow> stop_f64 \<Rightarrow> nat \<Rightarrow> nat \<Rightarrow> stop_f64 list \<times> double \<times> bool \<Rightarrow> stop_f64 list \<times> double \<times> bool" where
  "twoOpt_util_j_f64 L depot i j (bestRoute, bestDistance, improved) =
     (if j < length bestRoute then
        (let newRoute = reverse_slice bestRoute (i + 1) (j + 1);
             newDistance = calculateRouteDistance_f64 L newRoute depot
         in if flt newDistance (fsub bestDistance (rnd (1 / 100)))
            then twoOpt_util_j_f64 L depot i (j + 1) (newRoute, newDistance, True)
            else twoOpt_util_j_f64 L depot i (j + 1) (bestRoute, bestDistance, improved))
      else (bestRoute, bestDistance, improved))"
  by pat_completeness auto
termination
  by (relation "measures [\<lambda>(L, depot, i, j, r, d, b). if i \<le> j then 0 else i - j,
                          \<lambda>(L, depot, i, j, r, d, b). length r - j]")
     (auto simp: reverse_slice_def)

declare twoOpt_util_j_f64.simps [simp del]

lemma length_twoOpt_util_j_f64:
  "i \<le> j \<Longrightarrow> length (fst (twoOpt_util_j_f64 L depot i j st)) = length (fst st)"
proof (induction L depot i j st rule: twoOpt_util_j_f64.induct)
  case (1 L depot i j bestRoute bestDistance improved)
  show ?case
  proof (cases "j < length bestRoute")
    case True
    with 1 show ?thesis
      by (simp add: Let_def length_reverse_slice twoOpt_util_j_f64.simps [of L depot i j])
  next
    case False
    then show ?thesis by (simp add: twoOpt_util_j_f64.simps [of L depot i j])
  qed
qed

function twoOpt_util_i_f64 ::
  "libm \<Rightarrow> stop_f64 \<Rightarrow> nat \<Rightarrow> stop_f64 list \<times> double \<times> bool \<Rightarrow> stop_f64 list \<times> double \<times> bool" where
  "twoOpt_util_i_f64 L depot i (bestRoute, bestDistance, improved) =
     (if i + 1 < length bestRoute
      then twoOpt_util_i_f64 L depot (i + 1)
             (twoOpt_util_j_f64 L depot i (i + 2) (bestRoute, bestDistance, improved))
      else (bestRoute, bestDistance, improved))"
  by pat_completeness auto
termination
  by (relation "measure (\<lambda>(L, depot, i, st). length (fst st) - i)")
     (auto simp: length_twoOpt_util_j_f64)

declare twoOpt_util_i_f64.simps [simp del]

function twoOpt_util_while_f64 ::
  "libm \<Rightarrow> stop_f64 \<Rightarrow> nat \<Rightarrow> nat \<Rightarrow> stop_f64 list \<times> double \<times> bool \<Rightarrow> stop_f64 list" where
  "twoOpt_util_while_f64 L depot maxIterations iterations (bestRoute, bestDistance, improved) =
     (if improved \<and> iterations < maxIterations
      then twoOpt_util_while_f64 L depot maxIterations (iterations + 1)
             (twoOpt_util_i_f64 L depot 0 (bestRoute, bestDistance, False))
      else bestRoute)"
  by pat_completeness auto
termination
  by (relation "measure (\<lambda>(L, depot, maxIterations, iterations, st). maxIterations - iterations)")
     auto

declare twoOpt_util_while_f64.simps [simp del]

definition twoOptImprove_util_f64 :: "libm \<Rightarrow> stop_f64 list \<Rightarrow> stop_f64 \<Rightarrow> nat \<Rightarrow> stop_f64 list" where
  "twoOptImprove_util_f64 L stops depot maxIterations =
     (if length stops \<le> 2 then stops
      else twoOpt_util_while_f64 L depot maxIterations 0
             (stops, calculateRouteDistance_f64 L stops depot, True))"

datatype optimize_error_f64 =
  No_stops_to_optimize_f64
  | Distribution_center_location_required_f64
  | No_stops_have_valid_GPS_coordinates_f64

record optimize_options_f64 =
  options_fuelPricePerGallon_f64 :: "double option"
  options_truckMpg_f64 :: "double option"
  options_avgSpeedMph_f64 :: "double option"
  options_stopDurationMinutes_f64 :: "double option"
  options_driverHourlyRate_f64 :: "double option"

record optimize_result_f64 =
  original_distance_f64 :: double
  original_stops_f64 :: "stop_f64 list"
  optimized_distance_f64 :: double
  optimized_stops_f64 :: "stop_f64 list"
  savings_miles_f64 :: double
  savings_percent_f64 :: double
  savings_fuelGallons_f64 :: double
  savings_fuelCost_f64 :: double
  costs_totalMiles_f64 :: double
  costs_fuelGallons_f64 :: double
  costs_fuelCost_f64 :: double
  costs_laborCost_f64 :: double
  costs_totalCost_f64 :: double
  time_drivingMinutes_f64 :: double
  time_stopMinutes_f64 :: double
  time_totalMinutes_f64 :: double
  time_totalHours_f64 :: double
  parameters_fuelPricePerGallon_f64 :: double
  parameters_truckMpg_f64 :: double
  parameters_avgSpeedMph_f64 :: double
  parameters_stopDurationMinutes_f64 :: double
  parameters_driverHourlyRate_f64 :: double

definition optimizeRoute_util_f64 ::
  "libm \<Rightarrow> stop_f64 list \<Rightarrow> stop_f64 option \<Rightarrow> optimize_options_f64 \<Rightarrow>
   (optimize_error_f64 + optimize_result_f64) option"
where
  "optimizeRoute_util_f64 L stops depot_in options =
     (let fuelPricePerGallon = default_to_f64 (options_fuelPricePerGallon_f64 options) (Fin (35 / 10));
          truckMpg' = default_to_f64 (options_truckMpg_f64 options) (Fin 8);
          avgSpeedMph = default_to_f64 (options_avgSpeedMph_f64 options) (Fin 35);
          stopDurationMinutes = default_to_f64 (options_stopDurationMinutes_f64 options) (Fin 20);
          driverHourlyRate = default_to_f64 (options_driverHourlyRate_f64 options) (Fin 25)
      in
      if stops = [] then Some (Inl No_stops_to_optimize_f64)
      else (case depot_in of
        None \<Rightarrow> Some (Inl Distribution_center_location_required_f64)
      | Some depot \<Rightarrow>
        (if falsy_f64 (lat_f64 depot) \<or> falsy_f64 (lng_f64 depot)
         then Some (Inl Distribution_center_location_required_f64)
         else
          (let validStops = filter valid_coordinates_f64 stops in
           (if validStops = [] then Some (Inl No_stops_have_valid_GPS_coordinates_f64)
            else
            (let originalDistance = calculateRouteDistance_f64 L validStops depot in
             (case nearestNeighbor_util_f64 L validStops depot of
               None \<Rightarrow> None
             | Some nnRoute \<Rightarrow>
             (
              let optimizedStops = twoOptImprove_util_f64 L nnRoute depot 100;
                  optimizedDistance = calculateRouteDistance_f64 L optimizedStops depot;
                  fuelGallons' = fdiv optimizedDistance truckMpg';
                  fuelCost' = fmul fuelGallons' fuelPricePerGallon;
                  drivingTimeHours = fdiv optimizedDistance avgSpeedMph;
                  stopTimeHours =
                    fdiv (fmul (Fin (real (length validStops))) stopDurationMinutes) (Fin 60);
                  totalTimeHours = fadd drivingTimeHours stopTimeHours;
                  laborCost = fmul totalTimeHours driverHourlyRate;
                  totalCost = fadd fuelCost' laborCost;
                  milesSaved = fsub originalDistance optimizedDistance;
                  percentSaved = (if flt (Fin 0) originalDistance
                                  then fmul (fdiv milesSaved originalDistance) (Fin 100)
                                  else Fin 0);
                  fuelSaved = fdiv milesSaved truckMpg';
                  costSaved = fmul fuelSaved fuelPricePerGallon
              in Some (Inr \<lparr>
                   original_distance_f64 = round_to_f64 10 originalDistance,
                   original_stops_f64 = validStops,
                   optimized_distance_f64 = round_to_f64 10 optimizedDistance,
                   optimized_stops_f64 = optimizedStops,
                   savings_miles_f64 = round_to_f64 10 milesSaved,
                   savings_percent_f64 = round_to_f64 10 percentSaved,
                   savings_fuelGallons_f64 = round_to_f64 10 fuelSaved,
                   savings_fuelCost_f64 = round_to_f64 100 costSaved,
                   costs_totalMiles_f64 = round_to_f64 10 optimizedDistance,
                   costs_fuelGallons_f64 = round_to_f64 10 fuelGallons',
                   costs_fuelCost_f64 = round_to_f64 100 fuelCost',
                   costs_laborCost_f64 = round_to_f64 100 laborCost,
                   costs_totalCost_f64 = round_to_f64 100 totalCost,
                   time_drivingMinutes_f64 = Math_round (fmul drivingTimeHours (Fin 60)),
                   time_stopMinutes_f64 = Math_round (fmul stopTimeHours (Fin 60)),
                   time_totalMinutes_f64 = Math_round (fmul totalTimeHours (Fin 60)),
                   time_totalHours_f64 = round_to_f64 10 totalTimeHours,
                   parameters_fuelPricePerGallon_f64 = fuelPricePerGallon,
                   parameters_truckMpg_f64 = truckMpg',
                   parameters_avgSpeedMph_f64 = avgSpeedMph,
                   parameters_stopDurationMinutes_f64 = stopDurationMinutes,
                   parameters_driverHourlyRate_f64 = driverHourlyRate\<rparr>)))))))))"

section \<open>optimize-route.js and route-optimizer.js in double precision\<close>

definition locationDistance_f64 :: "libm \<Rightarrow> stop_f64 \<Rightarrow> stop_f64 \<Rightarrow> double" where
  \<comment> \<open>\<open>haversineDistance(a.lat, a.lng, b.lat, b.lng)\<close>, radius 3958.8\<close>
  "locationDistance_f64 L a b =
     haversineDistance_f64 L (number (lat_f64 a)) (number (lng_f64 a))
       (number (lat_f64 b)) (number (lng_f64 b))"

definition buildDistanceMatrix_f64 :: "libm \<Rightarrow> stop_f64 list \<Rightarrow> matrix_f64" where
  \<comment> \<open>optimize-route.js: every cell off the diagonal computed\<close>
  "buildDistanceMatrix_f64 L locations =
     map (\<lambda>i. map (\<lambda>j. if i = j then Fin 0
                       else locationDistance_f64 L (locations ! i) (locations ! j))
                [0..<length locations])
         [0..<length locations]"

partial_function (option) nn_while_f64 ::
  "matrix_f64 \<Rightarrow> nat \<Rightarrow> nat list \<Rightarrow> route \<Rightarrow> nat \<Rightarrow> route option"
where
  "nn_while_f64 distanceMatrix n visited route current =
     (if length visited < n then
        (case nn_scan_f64 distanceMatrix current visited [0..<n] of
           None \<Rightarrow> nn_while_f64 distanceMatrix n visited route current
         | Some nearest \<Rightarrow>
             nn_while_f64 distanceMatrix n (set_add nearest visited) (route @ [nearest]) nearest)
      else Some route)"

definition nearestNeighbor_ro_f64 :: "matrix_f64 \<Rightarrow> nat \<Rightarrow> route option" where
  \<comment> \<open>route-optimizer.js: the open route\<close>
  "nearestNeighbor_ro_f64 distanceMatrix startIndex =
     nn_while_f64 distanceMatrix (length distanceMatrix) [startIndex] [startIndex] startIndex"

definition nearestNeighbor_f64 :: "matrix_f64 \<Rightarrow> nat \<Rightarrow> route option" where
  \<comment> \<open>optimize-route.js: the route closed with \<open>route.push(startIndex)\<close>\<close>
  "nearestNeighbor_f64 distanceMatrix startIndex =
     map_option (\<lambda>route. route @ [startIndex])
       (nn_while_f64 distanceMatrix (length distanceMatrix) [startIndex] [startIndex] startIndex)"

definition calculateTwoOptDelta_f64 :: "route \<Rightarrow> matrix_f64 \<Rightarrow> nat \<Rightarrow> nat \<Rightarrow> double" where
  "calculateTwoOptDelta_f64 route distanceMatrix i j =
     (let a = route ! (i - 1);
          b = route ! i;
          c = route ! j;
          d = route ! (j + 1);
          currentDist = fadd (distanceMatrix ! a ! b) (distanceMatrix ! c ! d);
          newDist = fadd (distanceMatrix ! a ! c) (distanceMatrix ! b ! d)
      in fsub newDist currentDist)"

function twoOpt_j_f64 :: "matrix_f64 \<Rightarrow> nat \<Rightarrow> nat \<Rightarrow> route \<times> bool \<Rightarrow> route \<times> bool" where
  "twoOpt_j_f64 distanceMatrix i j (bestRoute, improved) =
     (if j + 1 < length bestRoute then
        (if flt (calculateTwoOptDelta_f64 bestRoute distanceMatrix i j) (fneg (rnd (1 / 1000)))
         then twoOpt_j_f64 distanceMatrix i (j + 1) (twoOptSwap bestRoute i j, True)
         else twoOpt_j_f64 distanceMatrix i (j + 1) (bestRoute, improved))
      else (bestRoute, improved))"
  by pat_completeness auto
termination
  by (relation "measures [\<lambda>(m, i, j, r, b). if i \<le> j + 1 then 0 else i - j,
                          \<lambda>(m, i, j, r, b). length r - j]")
     (auto simp: twoOptSwap_def reverse_slice_def)

declare twoOpt_j_f64.simps [simp del]

lemma length_twoOpt_j_f64:
  "i \<le> j + 1 \<Longrightarrow> length (fst (twoOpt_j_f64 m i j st)) = length (fst st)"
proof (induction m i j st rule: twoOpt_j_f64.induct)
  case (1 m i j bestRoute improved)
  show ?case
  proof (cases "j + 1 < length bestRoute")
    case True
    with 1 show ?thesis
      by (simp add: twoOptSwap_def length_reverse_slice twoOpt_j_f64.simps [of m i j])
  next
    case False
    then show ?thesis by (simp add: twoOpt_j_f64.simps [of m i j])
  qed
qed

function twoOpt_i_f64 :: "matrix_f64 \<Rightarrow> nat \<Rightarrow> route \<times> bool \<Rightarrow> route \<times> bool" where
  "twoOpt_i_f64 distanceMatrix i (bestRoute, improved) =
     (if i + 2 < length bestRoute
      then twoOpt_i_f64 distanceMatrix (i + 1)
             (twoOpt_j_f64 distanceMatrix i (i + 1) (bestRoute, improved))
      else (bestRoute, improved))"
  by pat_completeness auto
termination
  by (relation "measure (\<lambda>(m, i, st). length (fst st) - i)")
     (auto simp: length_twoOpt_j_f64)

declare twoOpt_i_f64.simps [simp del]

function twoOpt_while_f64 :: "matrix_f64 \<Rightarrow> nat \<Rightarrow> nat \<Rightarrow> route \<times> bool \<Rightarrow> route" where
  "twoOpt_while_f64 distanceMatrix maxIterations iterations (bestRoute, improved) =
     (if improved \<and> iterations < maxIterations
      then twoOpt_while_f64 distanceMatrix maxIterations (iterations + 1)
             (twoOpt_i_f64 distanceMatrix 1 (bestRoute, False))
      else bestRoute)"
  by pat_completeness auto
termination
  by (relation "measure (\<lambda>(m, maxIterations, iterations, st). maxIterations - iterations)") auto

declare twoOpt_while_f64.simps [simp del]

definition twoOpt_f64 :: "route \<Rightarrow> matrix_f64 \<Rightarrow> nat \<Rightarrow> route" where
  "twoOpt_f64 route distanceMatrix maxIterations =
     twoOpt_while_f64 distanceMatrix maxIterations 0 (route, True)"

function twoOptImprove_j_f64 :: "matrix_f64 \<Rightarrow> nat \<Rightarrow> nat \<Rightarrow> route \<times> bool \<Rightarrow> route \<times> bool" where
  "twoOptImprove_j_f64 distanceMatrix i j (bestRoute, improved) =
     (if j + 1 < length bestRoute then
        (let currentDist =
               fadd (distanceMatrix ! (bestRoute ! (i - 1)) ! (bestRoute ! i))
                    (distanceMatrix ! (bestRoute ! j) ! (bestRoute ! (j + 1)));
             newDist =
               fadd (distanceMatrix ! (bestRoute ! (i - 1)) ! (bestRoute ! j))
                    (distanceMatrix ! (bestRoute ! i) ! (bestRoute ! (j + 1)))
         in if flt newDist (fsub currentDist (rnd (1 / 1000)))
            then twoOptImprove_j_f64 distanceMatrix i (j + 1) (reverse_in_place bestRoute i j, True)
            else twoOptImprove_j_f64 distanceMatrix i (j + 1) (bestRoute, improved))
      else (bestRoute, improved))"
  by pat_completeness auto
termination
  by (relation "measure (\<lambda>(m, i, j, r, b). length r - j)")
     (auto simp: length_reverse_in_place)

declare twoOptImprove_j_f64.simps [simp del]

lemma length_twoOptImprove_j_f64:
  "length (fst (twoOptImprove_j_f64 m i j st)) = length (fst st)"
proof (induction m i j st rule: twoOptImprove_j_f64.induct)
  case (1 m i j bestRoute improved)
  show ?case
  proof (cases "j + 1 < length bestRoute")
    case True
    with 1 show ?thesis
      by (simp add: Let_def length_reverse_in_place twoOptImprove_j_f64.simps [of m i j])
  next
    case False
    then show ?thesis by (simp add: twoOptImprove_j_f64.simps [of m i j])
  qed
qed

function twoOptImprove_i_f64 :: "matrix_f64 \<Rightarrow> nat \<Rightarrow> route \<times> bool \<Rightarrow> route \<times> bool" where
  "twoOptImprove_i_f64 distanceMatrix i (bestRoute, improved) =
     (if i + 2 < length bestRoute
      then twoOptImprove_i_f64 distanceMatrix (i + 1)
             (twoOptImprove_j_f64 distanceMatrix i (i + 1) (bestRoute, improved))
      else (bestRoute, improved))"
  by pat_completeness auto
termination
  by (relation "measure (\<lambda>(m, i, st). length (fst st) - i)")
     (auto simp: length_twoOptImprove_j_f64)

declare twoOptImprove_i_f64.simps [simp del]

function twoOptImprove_while_f64 ::
  "matrix_f64 \<Rightarrow> nat \<Rightarrow> nat \<Rightarrow> route \<times> bool \<Rightarrow> route \<times> nat" where
  "twoOptImprove_while_f64 distanceMatrix maxIterations iterations (bestRoute, improved) =
     (if improved \<and> iterations < maxIterations
      then twoOptImprove_while_f64 distanceMatrix maxIterations (iterations + 1)
             (twoOptImprove_i_f64 distanceMatrix 1 (bestRoute, False))
      else (bestRoute, iterations))"
  by pat_completeness auto
termination
  by (relation "measure (\<lambda>(m, maxIterations, iterations, st). maxIterations - iterations)") auto

declare twoOptImprove_while_f64.simps [simp del]

definition twoOptImprove_f64 :: "route \<Rightarrow> matrix_f64 \<Rightarrow> nat \<Rightarrow> route \<times> nat" where
  "twoOptImprove_f64 route distanceMatrix maxIterations =
     twoOptImprove_while_f64 distanceMatrix maxIterations 0 (route, True)"

definition calculateTotalDistance_f64 :: "route \<Rightarrow> matrix_f64 \<Rightarrow> bool \<Rightarrow> double" where
  "calculateTotalDistance_f64 route distanceMatrix returnToStart =
     (let total = fold (\<lambda>i t. fadd t (distanceMatrix ! (route ! i) ! (route ! (i + 1))))
                    [0..<length route - 1] (Fin 0)
      in if returnToStart \<and> length route > 1
         then fadd total (distanceMatrix ! (route ! (length route - 1)) ! (route ! 0))
         else total)"

record metrics_options_f64 =
  fuelPrice_f64 :: "double option"
  truckMpg_f64 :: "double option"
  avgSpeed_f64 :: "double option"
  stopDuration_f64 :: "double option"

record segment_f64 =
  seg_from_f64 :: nat
  seg_to_f64 :: nat
  seg_distance_f64 :: double
  seg_estimatedTime_f64 :: double

record route_metrics_f64 =
  totalMiles_f64 :: double
  fuelGallons_f64 :: double
  fuelCost_f64 :: double
  driveTimeMinutes_f64 :: double
  stopTimeMinutes_f64 :: double
  totalTimeMinutes_f64 :: double
  numStops_f64 :: int
  segments_f64 :: "segment_f64 list"

definition metrics_leg_f64 ::
  "route \<Rightarrow> matrix_f64 \<Rightarrow> double \<Rightarrow> nat \<Rightarrow> double \<times> segment_f64 list \<Rightarrow> double \<times> segment_f64 list" where
  "metrics_leg_f64 route distanceMatrix avgSpeed' i acc =
     (let fromIdx = route ! i;
          toIdx = route ! (i + 1);
          distance = distanceMatrix ! fromIdx ! toIdx
      in (fadd (fst acc) distance,
          snd acc @ [\<lparr>seg_from_f64 = fromIdx, seg_to_f64 = toIdx,
                      seg_distance_f64 = round_to_f64 100 distance,
                      seg_estimatedTime_f64 = Math_round (fmul (fdiv distance avgSpeed') (Fin 60))\<rparr>]))"

definition calculateRouteMetrics_f64 ::
  "route \<Rightarrow> matrix_f64 \<Rightarrow> metrics_options_f64 \<Rightarrow> route_metrics_f64" where
  "calculateRouteMetrics_f64 route distanceMatrix options =
     (let fuelPrice' = default_to_f64 (fuelPrice_f64 options) (Fin (35 / 10));
          truckMpg' = default_to_f64 (truckMpg_f64 options) (Fin 8);
          avgSpeed' = default_to_f64 (avgSpeed_f64 options) (Fin 35);
          stopDuration' = default_to_f64 (stopDuration_f64 options) (Fin 20);
          acc = fold (metrics_leg_f64 route distanceMatrix avgSpeed') [0..<length route - 1]
                  (Fin 0, []);
          totalMiles' = fst acc;
          numStops' = int (length route) - 2;
          fuelGallons' = fdiv totalMiles' truckMpg';
          fuelCost' = fmul fuelGallons' fuelPrice';
          driveTimeMinutes' = fmul (fdiv totalMiles' avgSpeed') (Fin 60);
          stopTimeMinutes' = fmul (Fin (real_of_int numStops')) stopDuration';
          totalTimeMinutes' = fadd driveTimeMinutes' stopTimeMinutes'
      in \<lparr>totalMiles_f64 = round_to_f64 100 totalMiles',
          fuelGallons_f64 = round_to_f64 100 fuelGallons',
          fuelCost_f64 = round_to_f64 100 fuelCost',
          driveTimeMinutes_f64 = Math_round driveTimeMinutes',
          stopTimeMinutes_f64 = Math_round stopTimeMinutes',
          totalTimeMinutes_f64 = Math_round totalTimeMinutes',
          numStops_f64 = numStops',
          segments_f64 = snd acc\<rparr>)"

datatype route_error_f64 =
  Distribution_center_is_missing_GPS_coordinates_f64
  | No_stops_with_valid_GPS_coordinates_f64

definition valid_coordinates_nan_f64 :: "stop_f64 \<Rightarrow> bool" where
  \<comment> \<open>\<open>s => s.lat && s.lng && !isNaN(s.lat) && !isNaN(s.lng)\<close>\<close>
  "valid_coordinates_nan_f64 s =
     (\<not> falsy_f64 (lat_f64 s) \<and> \<not> falsy_f64 (lng_f64 s) \<and>
      number (lat_f64 s) \<noteq> Nan \<and> number (lng_f64 s) \<noteq> Nan)"

record optimize_response_f64 =
  response_stops_f64 :: "stop_f64 list"
  response_metrics_f64 :: route_metrics_f64
  response_original_metrics_f64 :: route_metrics_f64
  response_savings_miles_f64 :: double
  response_savings_fuel_cost_f64 :: double
  response_savings_time_minutes_f64 :: double
  response_savings_percentage_f64 :: double
  response_route_order_f64 :: "nat list"

definition optimizeRoute_f64 ::
  "libm \<Rightarrow> stop_f64 \<Rightarrow> stop_f64 list \<Rightarrow> double option \<Rightarrow> double \<Rightarrow>
   (route_error_f64 + optimize_response_f64) option"
where
  "optimizeRoute_f64 L depot stops_in fuel_price_in truckMpg_in =
     (if falsy_f64 (lat_f64 depot) \<or> falsy_f64 (lng_f64 depot)
      then Some (Inl Distribution_center_is_missing_GPS_coordinates_f64)
      else
       (let stops = filter valid_coordinates_nan_f64 stops_in in
        (if stops = [] then Some (Inl No_stops_with_valid_GPS_coordinates_f64)
         else
          (let locations = depot # stops;
               distanceMatrix = buildDistanceMatrix_f64 L locations
           in (case nearestNeighbor_f64 distanceMatrix 0 of
                 None \<Rightarrow> None
               | Some nnRoute \<Rightarrow>
                 (let optimizedRoute = twoOpt_f64 nnRoute distanceMatrix 1000;
                      options = \<lparr>fuelPrice_f64 = Some (or_else_f64 fuel_price_in (Fin (35 / 10))),
                                 truckMpg_f64 = Some truckMpg_in, avgSpeed_f64 = None,
                                 stopDuration_f64 = None\<rparr>;
                      originalMetrics = calculateRouteMetrics_f64 nnRoute distanceMatrix options;
                      optimizedMetrics =
                        calculateRouteMetrics_f64 optimizedRoute distanceMatrix options;
                      orderedStops = map (\<lambda>idx. locations ! idx) (butlast (tl optimizedRoute));
                      milesSaved =
                        fsub (totalMiles_f64 originalMetrics) (totalMiles_f64 optimizedMetrics);
                      costSaved =
                        fsub (fuelCost_f64 originalMetrics) (fuelCost_f64 optimizedMetrics);
                      timeSaved = fsub (totalTimeMinutes_f64 originalMetrics)
                                    (totalTimeMinutes_f64 optimizedMetrics)
                  in Some (Inr \<lparr>
                       response_stops_f64 = orderedStops,
                       response_metrics_f64 = optimizedMetrics,
                       response_original_metrics_f64 = originalMetrics,
                       response_savings_miles_f64 = round_to_f64 100 milesSaved,
                       response_savings_fuel_cost_f64 = round_to_f64 100 costSaved,
                       response_savings_time_minutes_f64 = Math_round timeSaved,
                       response_savings_percentage_f64 =
                         (if flt (Fin 0) (totalMiles_f64 originalMetrics)
                          then Math_round
                                 (fmul (fdiv milesSaved (totalMiles_f64 originalMetrics)) (Fin 100))
                          else Fin 0),
                       response_route_order_f64 =
                         map (\<lambda>idx. stop_id_f64 (locations ! idx)) optimizedRoute\<rparr>)))))))"

section \<open>Example inputs\<close>

definition stop_at :: "nat \<Rightarrow> real \<Rightarrow> real \<Rightarrow> stop" where
  "stop_at k la lo = \<lparr>stop_id = k, lat = Num la, lng = Num lo\<rparr>"

definition no_options :: optimize_options where
  "no_options = \<lparr>options_fuelPricePerGallon = None, options_truckMpg = None,
     options_avgSpeedMph = None, options_stopDurationMinutes = None,
     options_driverHourlyRate = None\<rparr>"

definition no_metrics_options :: metrics_options where
  "no_metrics_options = \<lparr>fuelPrice = None, truckMpg = None, avgSpeed = None, stopDuration = None\<rparr>"

lemma stop_at_simps [simp]:
  "stop_id (stop_at k a b) = k" "lat (stop_at k a b) = Num a" "lng (stop_at k a b) = Num b"
  by (simp_all add: stop_at_def)

text \<open>
  One engine: every result is the exact one, rounded to the nearest double.
\<close>

fun sin_rounded :: "double \<Rightarrow> double" where
  "sin_rounded (Fin a) = rnd (sin a)"
| "sin_rounded x = Nan"

fun cos_rounded :: "double \<Rightarrow> double" where
  "cos_rounded (Fin a) = rnd (cos a)"
| "cos_rounded x = Nan"

fun atan2_rounded :: "double \<Rightarrow> double \<Rightarrow> double" where
  "atan2_rounded (Fin y) (Fin x) = rnd (atan2 y x)"
| "atan2_rounded Nan x = Nan"
| "atan2_rounded y Nan = Nan"
| "atan2_rounded (Fin y) PosInf = Fin 0"
| "atan2_rounded (Fin y) NegInf = (if 0 \<le> y then rnd pi else rnd (- pi))"
| "atan2_rounded PosInf (Fin x) = rnd (pi / 2)"
| "atan2_rounded NegInf (Fin x) = rnd (- (pi / 2))"
| "atan2_rounded PosInf PosInf = rnd (pi / 4)"
| "atan2_rounded PosInf NegInf = rnd (3 * pi / 4)"
| "atan2_rounded NegInf PosInf = rnd (- (pi / 4))"
| "atan2_rounded NegInf NegInf = rnd (- (3 * pi / 4))"

definition correctly_rounded :: libm where
  "correctly_rounded =
     \<lparr>Math_sin = sin_rounded, Math_cos = cos_rounded, Math_atan2 = atan2_rounded\<rparr>"

definition stop_at_f64 :: "nat \<Rightarrow> real \<Rightarrow> real \<Rightarrow> stop_f64" where
  "stop_at_f64 i la lo = \<lparr>stop_id_f64 = i, lat_f64 = Some (Fin la), lng_f64 = Some (Fin lo)\<rparr>"

definition no_options_f64 :: optimize_options_f64 where
  "no_options_f64 = \<lparr>options_fuelPricePerGallon_f64 = None, options_truckMpg_f64 = None,
     options_avgSpeedMph_f64 = None, options_stopDurationMinutes_f64 = None,
     options_driverHourlyRate_f64 = None\<rparr>"

definition no_metrics_options_f64 :: metrics_options_f64 where
  "no_metrics_options_f64 =
     \<lparr>fuelPrice_f64 = None, truckMpg_f64 = None, avgSpeed_f64 = None, stopDuration_f64 = None\<rparr>"

lemma stop_at_f64_simps [simp]:
  "stop_id_f64 (stop_at_f64 i la lo) = i"
  "lat_f64 (stop_at_f64 i la lo) = Some (Fin la)"
  "lng_f64 (stop_at_f64 i la lo) = Some (Fin lo)"
  by (simp_all add: stop_at_f64_def)

section \<open>Invalid and degenerate inputs\<close>

lemma round_to_0 [simp]: "round_to k 0 = 0"
  by (simp add: round_to_def js_round_def)

text \<open>
  C8. When no stop is left after the coordinate filter, the optimizer returns an error and
  not an empty successful result: the utilities' \<open>optimizeRoute\<close> returns the error of
  the first check that fails (no stops, no depot location, no valid stop), and
  \<open>optimizeRoute\<close> of optimize-route.js the error of the depot check or of the filter.
  The error is a bare message, decided by the guards alone: no distance, matrix or route
  enters it.
\<close>

theorem empty_after_filter_is_error:
  "(filter valid_coordinates stops = [] \<longrightarrow>
      optimizeRoute_util stops depot options =
        Some (Inl (if stops = [] then No_stops_to_optimize
                   else if (case depot of None \<Rightarrow> True
                            | Some d \<Rightarrow> \<not> truthy (lat d) \<or> \<not> truthy (lng d))
                   then Distribution_center_location_required
                   else No_stops_have_valid_GPS_coordinates))) \<and>
   (filter valid_coordinates_nan stops = [] \<longrightarrow>
      optimizeRoute depot' stops fp mpg =
        Some (Inl (if \<not> truthy (lat depot') \<or> \<not> truthy (lng depot')
                   then Distribution_center_is_missing_GPS_coordinates
                   else No_stops_with_valid_GPS_coordinates)))"
  by (auto simp: optimizeRoute_util_def optimizeRoute_def Let_def split: option.splits)

theorem empty_after_filter_is_error_witness:
  "filter valid_coordinates [stop_at 1 0 5] = [] \<and>
   filter valid_coordinates_nan [stop_at 1 0 5] = [] \<and>
   optimizeRoute_util [stop_at 1 0 5] (Some (stop_at 0 1 1)) no_options =
     Some (Inl No_stops_have_valid_GPS_coordinates) \<and>
   optimizeRoute (stop_at 0 1 1) [stop_at 1 0 5] None 8 =
     Some (Inl No_stops_with_valid_GPS_coordinates)"
  using empty_after_filter_is_error [of "[stop_at 1 0 5]" "Some (stop_at 0 1 1)" no_options "stop_at 0 1 1" None 8]
  by (simp add: stop_at_def valid_coordinates_def valid_coordinates_nan_def)

text \<open>
  C10. A stop whose latitude or longitude is exactly 0 fails both coordinate filters, which
  test truthiness; with a located depot, a non-empty input made only of such stops gives
  the no-valid-coordinates error in both optimizers.
\<close>

theorem zero_coordinate_dropped:
  "((lat s = Num 0 \<or> lng s = Num 0) \<longrightarrow>
      \<not> valid_coordinates s \<and> \<not> valid_coordinates_nan s) \<and>
   (stops \<noteq> [] \<and> truthy (lat depot) \<and> truthy (lng depot) \<and>
    (\<forall>s \<in> set stops. lat s = Num 0 \<or> lng s = Num 0) \<longrightarrow>
      optimizeRoute_util stops (Some depot) options =
        Some (Inl No_stops_have_valid_GPS_coordinates) \<and>
      optimizeRoute depot stops fp mpg = Some (Inl No_stops_with_valid_GPS_coordinates))"
proof -
  have a: "\<not> valid_coordinates s \<and> \<not> valid_coordinates_nan s"
    if "lat s = Num 0 \<or> lng s = Num 0" for s
    using that by (auto simp: valid_coordinates_def valid_coordinates_nan_def)
  have b: "filter valid_coordinates stops = [] \<and> filter valid_coordinates_nan stops = []"
    if "\<forall>s \<in> set stops. lat s = Num 0 \<or> lng s = Num 0"
    using that a by (simp add: filter_empty_conv)
  show ?thesis
    using a b by (auto simp: optimizeRoute_util_def optimizeRoute_def Let_def)
qed

theorem zero_coordinate_dropped_witness:
  "lat (stop_at 1 0 5) = Num 0 \<and> [stop_at 1 0 5, stop_at 2 7 0] \<noteq> [] \<and>
   truthy (lat (stop_at 0 1 1)) \<and> truthy (lng (stop_at 0 1 1)) \<and>
   \<not> valid_coordinates (stop_at 1 0 5) \<and> \<not> valid_coordinates_nan (stop_at 1 0 5) \<and>
   optimizeRoute_util [stop_at 1 0 5, stop_at 2 7 0] (Some (stop_at 0 1 1)) no_options =
     Some (Inl No_stops_have_valid_GPS_coordinates) \<and>
   optimizeRoute (stop_at 0 1 1) [stop_at 1 0 5, stop_at 2 7 0] None 8 =
     Some (Inl No_stops_with_valid_GPS_coordinates)"
  using zero_coordinate_dropped [of "stop_at 1 0 5" "[stop_at 1 0 5, stop_at 2 7 0]"
          "stop_at 0 1 1" no_options None 8]
  by (simp add: stop_at_def)





section \<open>Tuning defaults\<close>

text \<open>
  C3, as the code has it. A tuning parameter the caller leaves out takes a default at every
  call site, and the call sites do not share one table of defaults. The utilities'
  \<open>optimizeRoute\<close> takes fuel price 3.50, efficiency 8, speed 35, service duration 20 and
  hourly rate 25; \<open>calculateRouteMetrics\<close> of optimize-route.js takes 3.50, 8, 35 and 20
  and has no hourly rate; \<open>getCompanySettings\<close> of route-optimizer.js takes 3.50, 8, 35
  and 25, and 15 minutes for the service duration.
\<close>

theorem tuning_defaults:
  "(options_fuelPricePerGallon opts = None \<longrightarrow>
      optimizeRoute_util stops depot opts =
      optimizeRoute_util stops depot (opts\<lparr>options_fuelPricePerGallon := Some (35 / 10)\<rparr>)) \<and>
   (options_truckMpg opts = None \<longrightarrow>
      optimizeRoute_util stops depot opts =
      optimizeRoute_util stops depot (opts\<lparr>options_truckMpg := Some 8\<rparr>)) \<and>
   (options_avgSpeedMph opts = None \<longrightarrow>
      optimizeRoute_util stops depot opts =
      optimizeRoute_util stops depot (opts\<lparr>options_avgSpeedMph := Some 35\<rparr>)) \<and>
   (options_stopDurationMinutes opts = None \<longrightarrow>
      optimizeRoute_util stops depot opts =
      optimizeRoute_util stops depot (opts\<lparr>options_stopDurationMinutes := Some 20\<rparr>)) \<and>
   (options_driverHourlyRate opts = None \<longrightarrow>
      optimizeRoute_util stops depot opts =
      optimizeRoute_util stops depot (opts\<lparr>options_driverHourlyRate := Some 25\<rparr>)) \<and>
   (fuelPrice mo = None \<longrightarrow>
      calculateRouteMetrics r m mo = calculateRouteMetrics r m (mo\<lparr>fuelPrice := Some (35 / 10)\<rparr>)) \<and>
   (truckMpg mo = None \<longrightarrow>
      calculateRouteMetrics r m mo = calculateRouteMetrics r m (mo\<lparr>truckMpg := Some 8\<rparr>)) \<and>
   (avgSpeed mo = None \<longrightarrow>
      calculateRouteMetrics r m mo = calculateRouteMetrics r m (mo\<lparr>avgSpeed := Some 35\<rparr>)) \<and>
   (stopDuration mo = None \<longrightarrow>
      calculateRouteMetrics r m mo = calculateRouteMetrics r m (mo\<lparr>stopDuration := Some 20\<rparr>)) \<and>
   (stored_fuel_price s = None \<longrightarrow> fuel_price (getCompanySettings (Some s)) = 35 / 10) \<and>
   (stored_default_mpg s = None \<longrightarrow> default_mpg (getCompanySettings (Some s)) = 8) \<and>
   (stored_avg_speed s = None \<longrightarrow> avg_speed (getCompanySettings (Some s)) = 35) \<and>
   (stored_driver_hourly_rate s = None \<longrightarrow>
      driver_hourly_rate (getCompanySettings (Some s)) = 25) \<and>
   (stored_stop_time s = None \<longrightarrow> stop_time (getCompanySettings (Some s)) = 15) \<and>
   getCompanySettings None =
     \<lparr>fuel_price = 35 / 10, default_mpg = 8, avg_speed = 35, driver_hourly_rate = 25,
      stop_time = 15\<rparr>"
proof -
  have u: "optimizeRoute_util stops depot opts = optimizeRoute_util stops depot opts'"
    if "default_to (options_fuelPricePerGallon opts) (35 / 10) =
          default_to (options_fuelPricePerGallon opts') (35 / 10)"
       "default_to (options_truckMpg opts) 8 = default_to (options_truckMpg opts') 8"
       "default_to (options_avgSpeedMph opts) 35 = default_to (options_avgSpeedMph opts') 35"
       "default_to (options_stopDurationMinutes opts) 20 =
          default_to (options_stopDurationMinutes opts') 20"
       "default_to (options_driverHourlyRate opts) 25 =
          default_to (options_driverHourlyRate opts') 25"
    for opts'
    unfolding optimizeRoute_util_def using that by simp
  have 1: "options_fuelPricePerGallon opts = None \<Longrightarrow>
      optimizeRoute_util stops depot opts =
      optimizeRoute_util stops depot (opts\<lparr>options_fuelPricePerGallon := Some (35 / 10)\<rparr>)"
    by (rule u) (simp_all add: default_to_def)
  have 2: "options_truckMpg opts = None \<Longrightarrow>
      optimizeRoute_util stops depot opts =
      optimizeRoute_util stops depot (opts\<lparr>options_truckMpg := Some 8\<rparr>)"
    by (rule u) (simp_all add: default_to_def)
  have 3: "options_avgSpeedMph opts = None \<Longrightarrow>
      optimizeRoute_util stops depot opts =
      optimizeRoute_util stops depot (opts\<lparr>options_avgSpeedMph := Some 35\<rparr>)"
    by (rule u) (simp_all add: default_to_def)
  have 4: "options_stopDurationMinutes opts = None \<Longrightarrow>
      optimizeRoute_util stops depot opts =
      optimizeRoute_util stops depot (opts\<lparr>options_stopDurationMinutes := Some 20\<rparr>)"
    by (rule u) (simp_all add: default_to_def)
  have 5: "options_driverHourlyRate opts = None \<Longrightarrow>
      optimizeRoute_util stops depot opts =
      optimizeRoute_util stops depot (opts\<lparr>options_driverHourlyRate := Some 25\<rparr>)"
    by (rule u) (simp_all add: default_to_def)
  have 6: "fuelPrice mo = None \<Longrightarrow>
      calculateRouteMetrics r m mo = calculateRouteMetrics r m (mo\<lparr>fuelPrice := Some (35 / 10)\<rparr>)"
    by (simp add: calculateRouteMetrics_def default_to_def DEFAULT_FUEL_PRICE_def)
  have 7: "truckMpg mo = None \<Longrightarrow>
      calculateRouteMetrics r m mo = calculateRouteMetrics r m (mo\<lparr>truckMpg := Some 8\<rparr>)"
    by (simp add: calculateRouteMetrics_def default_to_def)
  have 8: "avgSpeed mo = None \<Longrightarrow>
      calculateRouteMetrics r m mo = calculateRouteMetrics r m (mo\<lparr>avgSpeed := Some 35\<rparr>)"
    by (simp add: calculateRouteMetrics_def default_to_def DEFAULT_AVG_SPEED_def)
  have 9: "stopDuration mo = None \<Longrightarrow>
      calculateRouteMetrics r m mo = calculateRouteMetrics r m (mo\<lparr>stopDuration := Some 20\<rparr>)"
    by (simp add: calculateRouteMetrics_def default_to_def DEFAULT_STOP_DURATION_def)
  have 10: "(stored_fuel_price s = None \<longrightarrow> fuel_price (getCompanySettings (Some s)) = 35 / 10) \<and>
   (stored_default_mpg s = None \<longrightarrow> default_mpg (getCompanySettings (Some s)) = 8) \<and>
   (stored_avg_speed s = None \<longrightarrow> avg_speed (getCompanySettings (Some s)) = 35) \<and>
   (stored_driver_hourly_rate s = None \<longrightarrow>
      driver_hourly_rate (getCompanySettings (Some s)) = 25) \<and>
   (stored_stop_time s = None \<longrightarrow> stop_time (getCompanySettings (Some s)) = 15)"
    by (simp add: getCompanySettings_def or_else_def)
  have 11: "getCompanySettings None =
     \<lparr>fuel_price = 35 / 10, default_mpg = 8, avg_speed = 35, driver_hourly_rate = 25,
      stop_time = 15\<rparr>"
    by (simp add: getCompanySettings_def or_else_def no_settings_def)
  show ?thesis
    using 1 2 3 4 5 6 7 8 9 10 11 by blast
qed

theorem tuning_defaults_witness:
  "options_fuelPricePerGallon no_options = None \<and> options_truckMpg no_options = None \<and>
   options_avgSpeedMph no_options = None \<and> options_stopDurationMinutes no_options = None \<and>
   options_driverHourlyRate no_options = None \<and>
   optimizeRoute_util [stop_at 1 3 4] (Some (stop_at 0 3 4)) no_options =
     optimizeRoute_util [stop_at 1 3 4] (Some (stop_at 0 3 4))
       (no_options\<lparr>options_fuelPricePerGallon := Some (35 / 10)\<rparr>) \<and>
   optimizeRoute_util [stop_at 1 3 4] (Some (stop_at 0 3 4)) no_options =
     optimizeRoute_util [stop_at 1 3 4] (Some (stop_at 0 3 4))
       (no_options\<lparr>options_truckMpg := Some 8\<rparr>) \<and>
   optimizeRoute_util [stop_at 1 3 4] (Some (stop_at 0 3 4)) no_options =
     optimizeRoute_util [stop_at 1 3 4] (Some (stop_at 0 3 4))
       (no_options\<lparr>options_avgSpeedMph := Some 35\<rparr>) \<and>
   optimizeRoute_util [stop_at 1 3 4] (Some (stop_at 0 3 4)) no_options =
     optimizeRoute_util [stop_at 1 3 4] (Some (stop_at 0 3 4))
       (no_options\<lparr>options_stopDurationMinutes := Some 20\<rparr>) \<and>
   optimizeRoute_util [stop_at 1 3 4] (Some (stop_at 0 3 4)) no_options =
     optimizeRoute_util [stop_at 1 3 4] (Some (stop_at 0 3 4))
       (no_options\<lparr>options_driverHourlyRate := Some 25\<rparr>) \<and>
   fuelPrice no_metrics_options = None \<and> truckMpg no_metrics_options = None \<and>
   avgSpeed no_metrics_options = None \<and> stopDuration no_metrics_options = None \<and>
   calculateRouteMetrics [0, 1, 0] [[0, 2], [2, 0]] no_metrics_options =
     calculateRouteMetrics [0, 1, 0] [[0, 2], [2, 0]]
       (no_metrics_options\<lparr>fuelPrice := Some (35 / 10)\<rparr>) \<and>
   calculateRouteMetrics [0, 1, 0] [[0, 2], [2, 0]] no_metrics_options =
     calculateRouteMetrics [0, 1, 0] [[0, 2], [2, 0]]
       (no_metrics_options\<lparr>truckMpg := Some 8\<rparr>) \<and>
   calculateRouteMetrics [0, 1, 0] [[0, 2], [2, 0]] no_metrics_options =
     calculateRouteMetrics [0, 1, 0] [[0, 2], [2, 0]]
       (no_metrics_options\<lparr>avgSpeed := Some 35\<rparr>) \<and>
   calculateRouteMetrics [0, 1, 0] [[0, 2], [2, 0]] no_metrics_options =
     calculateRouteMetrics [0, 1, 0] [[0, 2], [2, 0]]
       (no_metrics_options\<lparr>stopDuration := Some 20\<rparr>) \<and>
   stored_fuel_price no_settings = None \<and> stored_default_mpg no_settings = None \<and>
   stored_avg_speed no_settings = None \<and> stored_driver_hourly_rate no_settings = None \<and>
   stored_stop_time no_settings = None \<and>
   fuel_price (getCompanySettings (Some no_settings)) = 35 / 10 \<and>
   default_mpg (getCompanySettings (Some no_settings)) = 8 \<and>
   avg_speed (getCompanySettings (Some no_settings)) = 35 \<and>
   driver_hourly_rate (getCompanySettings (Some no_settings)) = 25 \<and>
   stop_time (getCompanySettings (Some no_settings)) = 15"
proof -
  have o: "options_fuelPricePerGallon no_options = None" "options_truckMpg no_options = None"
    "options_avgSpeedMph no_options = None" "options_stopDurationMinutes no_options = None"
    "options_driverHourlyRate no_options = None"
    by (simp_all add: no_options_def)
  have m: "fuelPrice no_metrics_options = None" "truckMpg no_metrics_options = None"
    "avgSpeed no_metrics_options = None" "stopDuration no_metrics_options = None"
    by (simp_all add: no_metrics_options_def)
  have c: "stored_fuel_price no_settings = None" "stored_default_mpg no_settings = None"
    "stored_avg_speed no_settings = None" "stored_driver_hourly_rate no_settings = None"
    "stored_stop_time no_settings = None"
    by (simp_all add: no_settings_def)
  note t = tuning_defaults [where opts = no_options and stops = "[stop_at 1 3 4]"
      and depot = "Some (stop_at 0 3 4)" and mo = no_metrics_options and r = "[0, 1, 0]"
      and m = "[[0, 2], [2, 0]]" and s = no_settings]
  show ?thesis
    using t o m c by blast
qed

text \<open>
  The claim as stated, with 20 minutes at every call site, fails in route-optimizer.js:
  with no stored stop time the settings carry 15 minutes, and \<open>calculateRouteCosts\<close>
  charges three stops 45 minutes.
\<close>

theorem stop_time_default_counterexample:
  "stored_stop_time no_settings = None \<and>
   stop_time (getCompanySettings (Some no_settings)) \<noteq> 20 \<and>
   stop_time (getCompanySettings None) \<noteq> 20 \<and>
   (\<exists>c. calculateRouteCosts None (Some 10) (Some 3) None = Inr c \<and>
        used_stop_time_minutes (settings_used c) = 15 \<and> stop_time_minutes c = 45)"
  by (simp add: getCompanySettings_def or_else_def no_settings_def calculateRouteCosts_def
        falsy_def Let_def)

section \<open>Rounding to the nearest double\<close>

text \<open>
  \<open>binade x\<close> is the exponent of the binade of \<open>x\<close>; a number of magnitude at most \<open>2 ^ k\<close>
  rounds to a finite double of magnitude at most \<open>2 ^ k\<close>, at a distance of at most
  \<open>2 ^ (k - 53)\<close>. \<open>rnd_value\<close> and \<open>rnd_tie\<close> evaluate \<open>rnd\<close> at a given number, from the
  exponent and the significand of the result.
\<close>

lemma binade_bounds:
  assumes "x \<noteq> 0"
  shows "2 powi (binade x) \<le> \<bar>x\<bar>" and "\<bar>x\<bar> < 2 powi (binade x + 1)"
proof -
  have "2 powi (binade x) \<le> \<bar>x\<bar> \<and> \<bar>x\<bar> < 2 powi (binade x + 1)"
  proof (cases "1 \<le> \<bar>x\<bar>")
    case True
    define n where "n = \<lfloor>\<bar>x\<bar>\<rfloor>"
    have n: "0 < n" using True by (simp add: n_def)
    have b: "1 \<le> bitlen n" using n by (simp add: bitlen_alt_def)
    have e: "binade x = bitlen n - 1" using True by (simp add: binade_def n_def)
    from bitlen_bounds [OF n] have lo: "2 ^ nat (bitlen n - 1) \<le> n" and hi: "n < 2 ^ nat (bitlen n)"
      by auto
    have "(2 :: real) ^ nat (bitlen n - 1) \<le> real_of_int n"
      using lo by simp
    also have "real_of_int n \<le> \<bar>x\<bar>" by (simp add: n_def)
    finally have l: "2 powi (bitlen n - 1) \<le> \<bar>x\<bar>"
      using b by (simp add: power_int_nonneg_exp)
    have "n + 1 \<le> 2 ^ nat (bitlen n)" using hi by simp
    then have "real_of_int (n + 1) \<le> (2 :: real) ^ nat (bitlen n)"
      by (metis of_int_le_numeral_power_cancel_iff)
    moreover have "\<bar>x\<bar> < real_of_int (n + 1)" by (simp add: n_def)
    ultimately have "\<bar>x\<bar> < 2 ^ nat (bitlen n)" by linarith
    then have "\<bar>x\<bar> < 2 powi (bitlen n)"
      using b by (simp add: power_int_nonneg_exp)
    with l e show ?thesis by simp
  next
    case False
    define y where "y = 1 / \<bar>x\<bar>"
    define c where "c = \<lceil>y\<rceil> - 1"
    have x: "0 < \<bar>x\<bar>" "\<bar>x\<bar> < 1" using assms False by auto
    have y: "1 < y" using x by (simp add: y_def)
    have xy: "\<bar>x\<bar> = 1 / y" by (simp add: y_def)
    have c: "0 < c" using y by (simp add: c_def)
    have b: "1 \<le> bitlen c" using c by (simp add: bitlen_alt_def)
    have e: "binade x = - bitlen c" using False by (simp add: binade_def c_def y_def)
    from bitlen_bounds [OF c] have lo: "2 ^ nat (bitlen c - 1) \<le> c" and hi: "c < 2 ^ nat (bitlen c)"
      by auto
    have cy: "real_of_int c < y" "y \<le> real_of_int (c + 1)"
      by (simp_all add: c_def) linarith+
    have "c + 1 \<le> 2 ^ nat (bitlen c)" using hi by simp
    then have "real_of_int (c + 1) \<le> (2 :: real) ^ nat (bitlen c)"
      by (metis of_int_le_numeral_power_cancel_iff)
    with cy have yu: "y \<le> 2 ^ nat (bitlen c)" by linarith
    have "(2 :: real) ^ nat (bitlen c - 1) \<le> real_of_int c"
      using lo by simp
    with cy have yl: "2 ^ nat (bitlen c - 1) < y" by linarith
    have p1: "(2 :: real) powi (- bitlen c) = 1 / 2 ^ nat (bitlen c)"
      using b by (simp add: power_int_minus_divide power_int_nonneg_exp)
    have p2: "(2 :: real) powi (- bitlen c + 1) = 1 / 2 ^ nat (bitlen c - 1)"
    proof -
      have "(2 :: real) powi (- bitlen c + 1) = 2 powi (- (bitlen c - 1))" by simp
      also have "\<dots> = 1 / 2 powi (bitlen c - 1)" by (rule power_int_minus_divide)
      also have "\<dots> = 1 / 2 ^ nat (bitlen c - 1)" using b by (simp add: power_int_nonneg_exp)
      finally show ?thesis .
    qed
    have l: "2 powi (- bitlen c) \<le> \<bar>x\<bar>"
      unfolding p1 xy using yu y by (simp add: frac_le)
    have u: "\<bar>x\<bar> < 2 powi (- bitlen c + 1)"
      unfolding p2 xy using yl y by (simp add: frac_less2)
    from l u e show ?thesis by simp
  qed
  then show "2 powi (binade x) \<le> \<bar>x\<bar>" and "\<bar>x\<bar> < 2 powi (binade x + 1)" by auto
qed

lemma round_even_near: "\<bar>of_int (round_even x) - x\<bar> \<le> 1 / 2"
  by (auto simp: round_even_def Let_def)

lemma round_even_le: "x \<le> of_int N \<Longrightarrow> round_even x \<le> N"
  by (auto simp: round_even_def Let_def) linarith+

lemma round_even_ge: "of_int N \<le> x \<Longrightarrow> N \<le> round_even x"
  by (auto simp: round_even_def Let_def) linarith+

lemma rnd_bound:
  assumes x: "\<bar>x\<bar> \<le> 2 powi k" and k: "- 1022 \<le> k" "k \<le> 1023"
  shows "\<exists>y. rnd x = Fin y \<and> \<bar>y\<bar> \<le> 2 powi k \<and> \<bar>y - x\<bar> \<le> 2 powi (k - 53)"
proof (cases "x = 0")
  case True
  then show ?thesis by (simp add: rnd_def)
next
  case False
  define e where "e = max (binade x) (- 1022)"
  define u :: real where "u = 2 powi (e - 52)"
  define n where "n = round_even (x / u)"
  define y where "y = of_int n * u"
  have u: "0 < u" by (simp add: u_def)
  have ux: "ulp x = u" by (simp add: ulp_def u_def e_def)
  have "binade x \<le> k"
  proof (rule ccontr)
    assume "\<not> binade x \<le> k"
    then have "k < binade x" by simp
    then have "(2 :: real) powi k < 2 powi (binade x)"
      by (intro power_int_strict_increasing) simp_all
    with binade_bounds(1) [OF False] x show False by linarith
  qed
  with k have ek: "e \<le> k" by (simp add: e_def)
  have near: "\<bar>of_int n - x / u\<bar> \<le> 1 / 2"
    unfolding n_def by (rule round_even_near)
  have "\<bar>y - x\<bar> = u * \<bar>of_int n - x / u\<bar>"
  proof -
    have "y - x = u * (of_int n - x / u)" using u by (simp add: y_def field_simps)
    then show ?thesis using u by (simp add: abs_mult)
  qed
  also have "\<dots> \<le> u * (1 / 2)"
    using near u by (intro mult_left_mono) simp_all
  also have "\<dots> = 2 powi (e - 53)"
  proof -
    have "(2 :: real) powi (e - 52) = 2 powi (e - 53 + 1)" by simp
    also have "\<dots> = 2 powi (e - 53) * 2" by (subst power_int_add) simp_all
    finally show ?thesis by (simp add: u_def)
  qed
  also have "\<dots> \<le> 2 powi (k - 53)"
    using ek by (intro power_int_increasing) simp_all
  finally have err: "\<bar>y - x\<bar> \<le> 2 powi (k - 53)" .
  define N :: int where "N = 2 ^ nat (k - e + 52)"
  have Nu: "of_int N * u = 2 powi k"
  proof -
    have "real_of_int N = 2 powi (k - e + 52)"
      using ek by (simp add: N_def power_int_nonneg_exp)
    then have "of_int N * u = 2 powi (k - e + 52) * 2 powi (e - 52)" by (simp add: u_def)
    also have "\<dots> = 2 powi ((k - e + 52) + (e - 52))" by (subst power_int_add) simp_all
    finally show ?thesis by simp
  qed
  have "x / u \<le> of_int N"
  proof -
    have "x \<le> of_int N * u" using x Nu by linarith
    then show ?thesis using u by (simp add: field_simps)
  qed
  then have n1: "n \<le> N" unfolding n_def by (rule round_even_le)
  have "of_int (- N) \<le> x / u"
  proof -
    have "- (of_int N * u) \<le> x" using x Nu by linarith
    then show ?thesis using u by (simp add: field_simps)
  qed
  then have n2: "- N \<le> n" unfolding n_def by (rule round_even_ge)
  have "\<bar>y\<bar> = \<bar>real_of_int n\<bar> * u" using u by (simp add: y_def abs_mult)
  also have "\<dots> \<le> of_int N * u"
  proof -
    have "\<bar>n\<bar> \<le> N" using n1 n2 by simp
    then have "\<bar>real_of_int n\<bar> \<le> of_int N" by linarith
    then show ?thesis using u by (intro mult_right_mono) simp_all
  qed
  finally have yb: "\<bar>y\<bar> \<le> 2 powi k" using Nu by simp
  have "(2 :: real) powi k \<le> 2 powi 1023"
    using k by (intro power_int_increasing) simp_all
  also have "\<dots> < 2 ^ 1024" by simp
  finally have "\<not> 2 ^ 1024 \<le> \<bar>y\<bar>" using yb by linarith
  then have "rnd x = Fin y"
    using False by (simp add: rnd_def Let_def ux y_def n_def)
  with yb err show ?thesis by blast
qed

lemma binade_eq:
  assumes "2 powi e \<le> \<bar>x\<bar>" "\<bar>x\<bar> < 2 powi (e + 1)"
  shows "binade x = e"
proof -
  have x: "x \<noteq> 0"
  proof
    assume "x = 0"
    with assms(1) have "(2 :: real) powi e \<le> 0" by simp
    moreover have "0 < (2 :: real) powi e" by simp
    ultimately show False by linarith
  qed
  note b = binade_bounds [OF x]
  have "\<not> binade x < e"
  proof
    assume "binade x < e"
    then have "(2 :: real) powi (binade x + 1) \<le> 2 powi e"
      by (intro power_int_increasing) simp_all
    with b(2) assms(1) show False by linarith
  qed
  moreover have "\<not> e < binade x"
  proof
    assume "e < binade x"
    then have "(2 :: real) powi (e + 1) \<le> 2 powi (binade x)"
      by (intro power_int_increasing) simp_all
    with b(1) assms(2) show False by linarith
  qed
  ultimately show ?thesis by simp
qed

lemma round_even_eq:
  assumes "\<bar>x - of_int n\<bar> < 1 / 2"
  shows "round_even x = n"
proof (cases "of_int n \<le> x")
  case True
  with assms have "\<lfloor>x\<rfloor> = n" by linarith
  with assms True show ?thesis by (simp add: round_even_def Let_def)
next
  case False
  with assms have f: "\<lfloor>x\<rfloor> = n - 1" by linarith
  from assms False have "1 / 2 < x - of_int (n - 1)" by simp
  with f show ?thesis by (simp add: round_even_def Let_def)
qed

lemma round_even_tie: "x = of_int n + 1 / 2 \<Longrightarrow> round_even x = (if even n then n else n + 1)"
proof -
  assume x: "x = of_int n + 1 / 2"
  have "\<lfloor>x\<rfloor> = n" unfolding x by linarith
  then show ?thesis by (simp add: round_even_def Let_def x)
qed

lemma rnd_value:
  assumes "2 powi e \<le> \<bar>x\<bar>" "\<bar>x\<bar> < 2 powi (e + 1)" "- 1022 \<le> e" "e \<le> 1022"
    and "\<bar>x / 2 powi (e - 52) - of_int n\<bar> < 1 / 2"
    and "y = of_int n * 2 powi (e - 52)"
  shows "rnd x = Fin y"
proof -
  have x: "x \<noteq> 0"
  proof
    assume "x = 0"
    with assms(1) have "(2 :: real) powi e \<le> 0" by simp
    moreover have "0 < (2 :: real) powi e" by simp
    ultimately show False by linarith
  qed
  have b: "binade x = e" using assms(1,2) by (rule binade_eq)
  have u: "ulp x = 2 powi (e - 52)" using assms(3) by (simp add: ulp_def b)
  have n: "round_even (x / 2 powi (e - 52)) = n" using assms(5) by (rule round_even_eq)
  have "\<bar>x\<bar> \<le> 2 powi (e + 1)" using assms(2) by simp
  from rnd_bound [OF this] assms(3,4) obtain z where z: "rnd x = Fin z" by auto
  then show ?thesis
    using x by (simp add: rnd_def Let_def u n assms(6) split: if_splits)
qed

lemma rnd_tie:
  assumes "2 powi e \<le> \<bar>x\<bar>" "\<bar>x\<bar> < 2 powi (e + 1)" "- 1022 \<le> e" "e \<le> 1022"
    and "x / 2 powi (e - 52) = of_int n + 1 / 2"
    and "y = of_int (if even n then n else n + 1) * 2 powi (e - 52)"
  shows "rnd x = Fin y"
proof -
  have x: "x \<noteq> 0"
  proof
    assume "x = 0"
    with assms(1) have "(2 :: real) powi e \<le> 0" by simp
    moreover have "0 < (2 :: real) powi e" by simp
    ultimately show False by linarith
  qed
  have b: "binade x = e" using assms(1,2) by (rule binade_eq)
  have u: "ulp x = 2 powi (e - 52)" using assms(3) by (simp add: ulp_def b)
  have n: "round_even (x / 2 powi (e - 52)) = (if even n then n else n + 1)"
    using assms(5) by (rule round_even_tie)
  have "\<bar>x\<bar> \<le> 2 powi (e + 1)" using assms(2) by simp
  from rnd_bound [OF this] assms(3,4) obtain z where z: "rnd x = Fin z" by auto
  then show ?thesis
    using x by (simp add: rnd_def Let_def u n assms(6) split: if_splits)
qed


section \<open>The cost and time formulas\<close>

text \<open>
  The estimator as the specification words it, in double precision: fuel volume is
  distance by efficiency, fuel cost is volume times price, drive time in minutes is
  distance by speed times 60, stop time is stops times service duration, total time is
  their sum, labor cost is total time in hours (the minutes by 60) times the hourly rate,
  total cost is fuel cost plus labor cost. No operand is rounded to cents or minutes.
  \<open>spec_estimate_hours_f64\<close> keeps the times in hours, as the route utilities do: stop
  time is stops times service duration by 60, total time is drive hours plus stop hours,
  and the minutes are the hours times 60. The two agree over the reals, not in doubles.
\<close>

definition legs_f64 :: "matrix_f64 \<Rightarrow> route \<Rightarrow> double" where
  "legs_f64 m route =
     fold (\<lambda>i t. fadd t (m ! (route ! i) ! (route ! (i + 1)))) [0..<length route - 1] (Fin 0)"

record estimate_f64 =
  est_fuel_volume :: double
  est_fuel_cost :: double
  est_drive_minutes :: double
  est_stop_minutes :: double
  est_total_minutes :: double
  est_labor_cost :: double
  est_total_cost :: double

definition spec_estimate_f64 ::
  "double \<Rightarrow> double \<Rightarrow> double \<Rightarrow> double \<Rightarrow> double \<Rightarrow> double \<Rightarrow> double \<Rightarrow> estimate_f64" where
  "spec_estimate_f64 total_distance stops efficiency price speed service rate =
     (let fuel_volume = fdiv total_distance efficiency;
          fuel_cost = fmul fuel_volume price;
          drive_minutes = fmul (fdiv total_distance speed) (Fin 60);
          stop_minutes = fmul stops service;
          total_minutes = fadd drive_minutes stop_minutes;
          labor_cost = fmul (fdiv total_minutes (Fin 60)) rate;
          total_cost = fadd fuel_cost labor_cost
      in \<lparr>est_fuel_volume = fuel_volume, est_fuel_cost = fuel_cost,
          est_drive_minutes = drive_minutes, est_stop_minutes = stop_minutes,
          est_total_minutes = total_minutes, est_labor_cost = labor_cost,
          est_total_cost = total_cost\<rparr>)"

definition spec_estimate_hours_f64 ::
  "double \<Rightarrow> double \<Rightarrow> double \<Rightarrow> double \<Rightarrow> double \<Rightarrow> double \<Rightarrow> double \<Rightarrow> estimate_f64" where
  "spec_estimate_hours_f64 total_distance stops efficiency price speed service rate =
     (let fuel_volume = fdiv total_distance efficiency;
          fuel_cost = fmul fuel_volume price;
          drive_hours = fdiv total_distance speed;
          stop_hours = fdiv (fmul stops service) (Fin 60);
          total_hours = fadd drive_hours stop_hours;
          labor_cost = fmul total_hours rate;
          total_cost = fadd fuel_cost labor_cost
      in \<lparr>est_fuel_volume = fuel_volume, est_fuel_cost = fuel_cost,
          est_drive_minutes = fmul drive_hours (Fin 60),
          est_stop_minutes = fmul stop_hours (Fin 60),
          est_total_minutes = fmul total_hours (Fin 60), est_labor_cost = labor_cost,
          est_total_cost = total_cost\<rparr>)"


lemma or_else_f64_twice: "or_else_f64 (Some (or_else_f64 x d)) d = or_else_f64 x d"
  by (simp add: or_else_f64_def split: option.splits)

lemma fold_metrics_leg_f64:
  "fst (fold (metrics_leg_f64 route m sp) is acc) =
   fold (\<lambda>i t. fadd t (m ! (route ! i) ! (route ! (i + 1)))) is (fst acc)"
  by (induction "is" arbitrary: acc) (simp_all add: metrics_leg_f64_def Let_def)

lemma metrics_total_f64:
  "fst (fold (metrics_leg_f64 route m sp) [0..<length route - Suc 0] (Fin 0, [])) = legs_f64 m route"
  by (simp add: fold_metrics_leg_f64 legs_f64_def)


text \<open>
  An example in which doubles and reals part: 35.875 miles at 35 mph are 61.5 minutes
  exactly, and \<open>61.49999999999999\<close> in double precision.
\<close>

lemma costs_example_1: "rnd (41 / 40) = Fin (2308094809027379 / 2251799813685248)"
  by (rule rnd_value [where e = 0 and n = 4616189618054758]) simp_all

lemma costs_example_2: "rnd (34621422135410685 / 562949953421312) = Fin (8655355533852671 / 140737488355328)"
  by (rule rnd_value [where e = 5 and n = 8655355533852671]) simp_all

lemma costs_example_3: "rnd (8655355533852671 / 140737488355328) = Fin (8655355533852671 / 140737488355328)"
  by (rule rnd_value [where e = 5 and n = 8655355533852671]) simp_all

lemma costs_example_4: "rnd (8655355533852671 / 8444249301319680) = Fin (2308094809027379 / 2251799813685248)"
  by (rule rnd_value [where e = 0 and n = 4616189618054758]) simp_all

lemma costs_example_5: "rnd (57702370225684475 / 2251799813685248) = Fin (7212796278210559 / 281474976710656)"
  by (rule rnd_value [where e = 4 and n = 7212796278210559]) simp_all

lemma costs_example_6: "rnd (180319906955263975 / 70368744177664) = Fin (5634997092351999 / 2199023255552)"
  by (rule rnd_value [where e = 11 and n = 5634997092351999]) simp_all

lemma costs_example_7: "rnd (1281 / 50) = Fin (7211388903327007 / 281474976710656)"
  by (rule rnd_value [where e = 4 and n = 7211388903327007]) simp_all


lemma hours_and_minutes_differ:
  "est_stop_minutes (spec_estimate_f64 d (Fin 3) e p s (Fin (205 / 10)) r) = Fin (123 / 2) \<and>
   est_stop_minutes (spec_estimate_hours_f64 d (Fin 3) e p s (Fin (205 / 10)) r) =
     Fin (8655355533852671 / 140737488355328)"
proof -
  have a: "rnd (123 / 2) = Fin (123 / 2)"
    by (rule rnd_value [where e = 5 and n = 8655355533852672]) simp_all
  have b: "rnd (41 / 40) = Fin (2308094809027379 / 2251799813685248)"
    by (rule rnd_value [where e = 0 and n = 4616189618054758]) simp_all
  show ?thesis
    by (simp add: spec_estimate_f64_def spec_estimate_hours_f64_def Let_def a b costs_example_2)
qed

text \<open>
  C7. Each figure the estimators report is the rounding of the specification's formula,
  evaluated in double precision on unrounded operands, from the inputs after the defaults
  are substituted; nothing rounded is fed back into a formula. \<open>calculateRouteCosts\<close>
  does so for every truthy distance, \<open>calculateRouteMetrics\<close> for the figures it has (it
  reports neither a labor cost nor a total cost), and the cost block of the utilities'
  \<open>optimizeRoute\<close> with the times kept in hours.
\<close>

theorem estimator_formulas:
  "(truthy_f64 d \<longrightarrow>
     (\<exists>c. calculateRouteCosts_f64 row (Some d) n truck = Inr c \<and>
        (let s = (case row of None \<Rightarrow> no_settings_f64 | Some s \<Rightarrow> s);
             e = spec_estimate_f64 d (or_else_f64 n (Fin 0))
                   (or_else_f64 truck (or_else_f64 (stored_default_mpg_f64 s) (Fin 8)))
                   (or_else_f64 (stored_fuel_price_f64 s) (Fin (35 / 10)))
                   (or_else_f64 (stored_avg_speed_f64 s) (Fin 35))
                   (or_else_f64 (stored_stop_time_f64 s) (Fin 15))
                   (or_else_f64 (stored_driver_hourly_rate_f64 s) (Fin 25))
         in fuel_gallons_f64 c = round_to_f64 100 (est_fuel_volume e) \<and>
            fuel_cost_f64 c = round_to_f64 100 (est_fuel_cost e) \<and>
            drive_time_minutes_f64 c = Math_round (est_drive_minutes e) \<and>
            stop_time_minutes_f64 c = est_stop_minutes e \<and>
            total_time_minutes_f64 c = Math_round (est_total_minutes e) \<and>
            labor_cost_f64 c = round_to_f64 100 (est_labor_cost e) \<and>
            total_cost_f64 c = round_to_f64 100 (est_total_cost e)))) \<and>
   (let e = spec_estimate_f64 (legs_f64 m route) (Fin (real_of_int (int (length route) - 2)))
              (default_to_f64 (truckMpg_f64 mo) (Fin 8))
              (default_to_f64 (fuelPrice_f64 mo) (Fin (35 / 10)))
              (default_to_f64 (avgSpeed_f64 mo) (Fin 35))
              (default_to_f64 (stopDuration_f64 mo) (Fin 20)) rate;
        r = calculateRouteMetrics_f64 route m mo
    in totalMiles_f64 r = round_to_f64 100 (legs_f64 m route) \<and>
       fuelGallons_f64 r = round_to_f64 100 (est_fuel_volume e) \<and>
       fuelCost_f64 r = round_to_f64 100 (est_fuel_cost e) \<and>
       driveTimeMinutes_f64 r = Math_round (est_drive_minutes e) \<and>
       stopTimeMinutes_f64 r = Math_round (est_stop_minutes e) \<and>
       totalTimeMinutes_f64 r = Math_round (est_total_minutes e)) \<and>
   (optimizeRoute_util_f64 L stops depot opts = Some (Inr res) \<longrightarrow>
     (\<exists>dep. depot = Some dep \<and>
       (let e = spec_estimate_hours_f64
                  (calculateRouteDistance_f64 L (optimized_stops_f64 res) dep)
                  (Fin (real (length (filter valid_coordinates_f64 stops))))
                  (default_to_f64 (options_truckMpg_f64 opts) (Fin 8))
                  (default_to_f64 (options_fuelPricePerGallon_f64 opts) (Fin (35 / 10)))
                  (default_to_f64 (options_avgSpeedMph_f64 opts) (Fin 35))
                  (default_to_f64 (options_stopDurationMinutes_f64 opts) (Fin 20))
                  (default_to_f64 (options_driverHourlyRate_f64 opts) (Fin 25))
        in costs_totalMiles_f64 res =
             round_to_f64 10 (calculateRouteDistance_f64 L (optimized_stops_f64 res) dep) \<and>
           costs_fuelGallons_f64 res = round_to_f64 10 (est_fuel_volume e) \<and>
           costs_fuelCost_f64 res = round_to_f64 100 (est_fuel_cost e) \<and>
           time_drivingMinutes_f64 res = Math_round (est_drive_minutes e) \<and>
           time_stopMinutes_f64 res = Math_round (est_stop_minutes e) \<and>
           time_totalMinutes_f64 res = Math_round (est_total_minutes e) \<and>
           costs_laborCost_f64 res = round_to_f64 100 (est_labor_cost e) \<and>
           costs_totalCost_f64 res = round_to_f64 100 (est_total_cost e))))"
proof (intro conjI impI)
  assume "truthy_f64 d"
  then show "\<exists>c. calculateRouteCosts_f64 row (Some d) n truck = Inr c \<and>
        (let s = (case row of None \<Rightarrow> no_settings_f64 | Some s \<Rightarrow> s);
             e = spec_estimate_f64 d (or_else_f64 n (Fin 0))
                   (or_else_f64 truck (or_else_f64 (stored_default_mpg_f64 s) (Fin 8)))
                   (or_else_f64 (stored_fuel_price_f64 s) (Fin (35 / 10)))
                   (or_else_f64 (stored_avg_speed_f64 s) (Fin 35))
                   (or_else_f64 (stored_stop_time_f64 s) (Fin 15))
                   (or_else_f64 (stored_driver_hourly_rate_f64 s) (Fin 25))
         in fuel_gallons_f64 c = round_to_f64 100 (est_fuel_volume e) \<and>
            fuel_cost_f64 c = round_to_f64 100 (est_fuel_cost e) \<and>
            drive_time_minutes_f64 c = Math_round (est_drive_minutes e) \<and>
            stop_time_minutes_f64 c = est_stop_minutes e \<and>
            total_time_minutes_f64 c = Math_round (est_total_minutes e) \<and>
            labor_cost_f64 c = round_to_f64 100 (est_labor_cost e) \<and>
            total_cost_f64 c = round_to_f64 100 (est_total_cost e))"
    by (simp add: calculateRouteCosts_f64_def falsy_f64_def Let_def spec_estimate_f64_def
          getCompanySettings_f64_def or_else_f64_twice)
       (simp add: or_else_f64_def)
next
  show "let e = spec_estimate_f64 (legs_f64 m route) (Fin (real_of_int (int (length route) - 2)))
              (default_to_f64 (truckMpg_f64 mo) (Fin 8))
              (default_to_f64 (fuelPrice_f64 mo) (Fin (35 / 10)))
              (default_to_f64 (avgSpeed_f64 mo) (Fin 35))
              (default_to_f64 (stopDuration_f64 mo) (Fin 20)) rate;
        r = calculateRouteMetrics_f64 route m mo
    in totalMiles_f64 r = round_to_f64 100 (legs_f64 m route) \<and>
       fuelGallons_f64 r = round_to_f64 100 (est_fuel_volume e) \<and>
       fuelCost_f64 r = round_to_f64 100 (est_fuel_cost e) \<and>
       driveTimeMinutes_f64 r = Math_round (est_drive_minutes e) \<and>
       stopTimeMinutes_f64 r = Math_round (est_stop_minutes e) \<and>
       totalTimeMinutes_f64 r = Math_round (est_total_minutes e)"
    by (simp add: calculateRouteMetrics_f64_def Let_def spec_estimate_f64_def metrics_total_f64)
next
  assume "optimizeRoute_util_f64 L stops depot opts = Some (Inr res)"
  then show "\<exists>dep. depot = Some dep \<and>
       (let e = spec_estimate_hours_f64
                  (calculateRouteDistance_f64 L (optimized_stops_f64 res) dep)
                  (Fin (real (length (filter valid_coordinates_f64 stops))))
                  (default_to_f64 (options_truckMpg_f64 opts) (Fin 8))
                  (default_to_f64 (options_fuelPricePerGallon_f64 opts) (Fin (35 / 10)))
                  (default_to_f64 (options_avgSpeedMph_f64 opts) (Fin 35))
                  (default_to_f64 (options_stopDurationMinutes_f64 opts) (Fin 20))
                  (default_to_f64 (options_driverHourlyRate_f64 opts) (Fin 25))
        in costs_totalMiles_f64 res =
             round_to_f64 10 (calculateRouteDistance_f64 L (optimized_stops_f64 res) dep) \<and>
           costs_fuelGallons_f64 res = round_to_f64 10 (est_fuel_volume e) \<and>
           costs_fuelCost_f64 res = round_to_f64 100 (est_fuel_cost e) \<and>
           time_drivingMinutes_f64 res = Math_round (est_drive_minutes e) \<and>
           time_stopMinutes_f64 res = Math_round (est_stop_minutes e) \<and>
           time_totalMinutes_f64 res = Math_round (est_total_minutes e) \<and>
           costs_laborCost_f64 res = round_to_f64 100 (est_labor_cost e) \<and>
           costs_totalCost_f64 res = round_to_f64 100 (est_total_cost e))"
    by (auto simp: optimizeRoute_util_f64_def Let_def spec_estimate_hours_f64_def
          split: option.splits if_splits)
qed

theorem estimator_formulas_witness:
  "truthy_f64 (Fin (287 / 8)) \<and>
   (\<exists>c. calculateRouteCosts_f64 None (Some (Fin (287 / 8))) None None = Inr c \<and>
        drive_time_minutes_f64 c = Fin 61 \<and> stop_time_minutes_f64 c = Fin 0 \<and>
        total_time_minutes_f64 c = Fin 61 \<and> labor_cost_f64 c = rnd (2562 / 100)) \<and>
   totalMiles_f64 (calculateRouteMetrics_f64 [0, 1, 0] [[Fin 0, Fin 2], [Fin 2, Fin 0]]
      no_metrics_options_f64) = Fin 4 \<and>
   stopTimeMinutes_f64 (calculateRouteMetrics_f64 [0, 1, 0] [[Fin 0, Fin 2], [Fin 2, Fin 0]]
      no_metrics_options_f64) = Fin 20 \<and>
   (\<exists>res. optimizeRoute_util_f64 correctly_rounded [stop_at_f64 7 3 4] (Some (stop_at_f64 0 3 4))
        no_options_f64 = Some (Inr res) \<and>
      time_stopMinutes_f64 res = Fin 20)"
proof -
  have i: "rnd 2 = Fin 2" "rnd 4 = Fin 4" "rnd 400 = Fin 400" "rnd 20 = Fin 20"
    by (rule rnd_value [where e = 1 and n = "2 ^ 52"], simp_all)
       (rule rnd_value [where e = 2 and n = "2 ^ 52"], simp_all,
        rule rnd_value [where e = 8 and n = "400 * 2 ^ 44"], simp_all,
        rule rnd_value [where e = 4 and n = "20 * 2 ^ 48"], simp_all)
  have h: "rnd (1 / 3) = Fin (6004799503160661 / 18014398509481984)"
    by (rule rnd_value [where e = "- 2" and n = 6004799503160661]) simp_all
  have h2: "rnd (90071992547409915 / 4503599627370496) = Fin 20"
    by (rule rnd_value [where e = 4 and n = 5629499534213120]) simp_all
  obtain res where res:
    "optimizeRoute_util_f64 correctly_rounded [stop_at_f64 7 3 4] (Some (stop_at_f64 0 3 4))
       no_options_f64 = Some (Inr res)"
    by (simp add: optimizeRoute_util_f64_def Let_def valid_coordinates_f64_def falsy_f64_def
          nearestNeighbor_util_f64_def)
  have v: "valid_coordinates_f64 (stop_at_f64 7 3 4)"
    by (simp add: valid_coordinates_f64_def falsy_f64_def)
  note t = estimator_formulas [where d = "Fin (287 / 8)" and row = None and n = None
      and truck = None and m = "[[Fin 0, Fin 2], [Fin 2, Fin 0]]" and route = "[0, 1, 0]"
      and mo = no_metrics_options_f64 and rate = "Fin 0" and L = correctly_rounded
      and stops = "[stop_at_f64 7 3 4]" and depot = "Some (stop_at_f64 0 3 4)"
      and opts = no_options_f64 and res = res]
  have a: "\<exists>c. calculateRouteCosts_f64 None (Some (Fin (287 / 8))) None None = Inr c \<and>
        drive_time_minutes_f64 c = Fin 61 \<and> stop_time_minutes_f64 c = Fin 0 \<and>
        total_time_minutes_f64 c = Fin 61 \<and> labor_cost_f64 c = rnd (2562 / 100)"
    using t [THEN conjunct1]
    by (auto simp add: Let_def or_else_f64_def no_settings_f64_def spec_estimate_f64_def
          round_to_f64_def rnd_def [of 0] costs_example_1 costs_example_2 costs_example_3
          costs_example_4 costs_example_5 costs_example_6 costs_example_7)
  have l: "legs_f64 [[Fin 0, Fin 2], [Fin 2, Fin 0]] [0, Suc 0, 0] = Fin 4"
    by (simp add: legs_f64_def i)
  have b: "totalMiles_f64 (calculateRouteMetrics_f64 [0, 1, 0] [[Fin 0, Fin 2], [Fin 2, Fin 0]]
      no_metrics_options_f64) = Fin 4 \<and>
   stopTimeMinutes_f64 (calculateRouteMetrics_f64 [0, 1, 0] [[Fin 0, Fin 2], [Fin 2, Fin 0]]
      no_metrics_options_f64) = Fin 20"
    using t [THEN conjunct2, THEN conjunct1]
    by (simp add: Let_def default_to_f64_def no_metrics_options_f64_def spec_estimate_f64_def
          round_to_f64_def l i)
  have c: "time_stopMinutes_f64 res = Fin 20"
    using t [THEN conjunct2, THEN conjunct2] res
    by (simp add: Let_def v spec_estimate_hours_f64_def default_to_f64_def no_options_f64_def
          i h h2)
  show ?thesis
    using res a b c by simp
qed


text \<open>
  \<open>calculateRouteCosts\<close> returns no metrics for a distance of 0: its guard
  \<open>!distance_miles\<close> answers \<open>Distance required\<close>.
\<close>

theorem zero_distance_is_refused_counterexample:
  "calculateRouteCosts_f64 None (Some (Fin 0)) (Some (Fin 3)) None = Inl Distance_required_f64"
  by (simp add: calculateRouteCosts_f64_def falsy_f64_def)

section \<open>Sums of legs over the reals\<close>




section \<open>2-opt never lengthens a route\<close>







































section \<open>Example: a route that 2-opt shortens\<close>






section \<open>Nearest neighbour returns, and the route is a permutation of the stops\<close>












lemma length_buildDistanceMatrix [simp]:
  "length (buildDistanceMatrix locations) = length locations"
  "length (buildDistanceMatrix_3959 locations) = length locations"
  by (simp_all add: buildDistanceMatrix_def buildDistanceMatrix_3959_def)












section \<open>Distances are never negative\<close>

text \<open>
  The term under the square root of the haversine formula is never negative, whatever the
  coordinates, and \<open>atan2\<close> of a non-negative first argument is non-negative.
\<close>

lemma sin_half_diff_squared:
  fixes x y :: real
  shows "sin ((y - x) / 2) * sin ((y - x) / 2) = (1 - (cos y * cos x + sin y * sin x)) / 2"
proof -
  have e: "2 * ((y - x) / 2) = y - x"
    by simp
  have "cos (2 * ((y - x) / 2)) = 1 - 2 * (sin ((y - x) / 2))\<^sup>2"
    by (rule cos_double_sin)
  then have "cos (y - x) = 1 - 2 * (sin ((y - x) / 2) * sin ((y - x) / 2))"
    unfolding e by (simp only: power2_eq_square)
  then show ?thesis
    by (simp add: cos_diff)
qed

lemma haversine_term_nonneg:
  fixes x y q :: real
  shows "0 \<le> sin ((y - x) / 2) * sin ((y - x) / 2) + cos x * cos y * sin q * sin q"
proof (cases "0 \<le> cos x * cos y")
  case True
  have "0 \<le> sin ((y - x) / 2) * sin ((y - x) / 2)" by simp
  moreover have "0 \<le> (cos x * cos y) * (sin q * sin q)"
    using True by (rule mult_nonneg_nonneg) simp
  ultimately show ?thesis by (simp add: mult.assoc)
next
  case False
  have "0 \<le> cos q * cos q"
    by simp
  moreover have "sin q * sin q + cos q * cos q = 1"
    using sin_cos_squared_add [of q] by (simp add: power2_eq_square)
  ultimately have s1: "sin q * sin q \<le> 1"
    by linarith
  have "cos x * cos y * 1 \<le> (cos x * cos y) * (sin q * sin q)"
    using False s1 by (intro mult_left_mono_neg) linarith+
  moreover have "sin ((y - x) / 2) * sin ((y - x) / 2) + cos x * cos y = (1 + cos (x + y)) / 2"
    by (simp add: sin_half_diff_squared cos_add field_simps)
  moreover have "0 \<le> (1 + cos (x + y)) / 2"
    by (simp add: real_0_le_add_iff)
  ultimately show ?thesis by (simp add: mult.assoc)
qed

lemma atan2_nonneg: "0 \<le> y \<Longrightarrow> 0 \<le> atan2 y x"
proof -
  assume y: "0 \<le> y"
  have "- (pi / 2) < arctan (y / x)" by (rule arctan_lbound)
  then have "0 \<le> arctan (y / x) + pi" using pi_gt_zero by linarith
  moreover have "0 < x \<Longrightarrow> 0 \<le> arctan (y / x)"
    using y by simp
  ultimately show ?thesis
    using y pi_ge_zero by (simp add: atan2_def)
qed

lemma atan2_pos: "0 < y \<Longrightarrow> 0 < atan2 y x"
proof -
  assume y: "0 < y"
  have "- (pi / 2) < arctan (y / x)" by (rule arctan_lbound)
  then have "0 < arctan (y / x) + pi" using pi_gt_zero by linarith
  moreover have "0 < x \<Longrightarrow> 0 < arctan (y / x)"
    using y by simp
  ultimately show ?thesis
    using y pi_gt_zero by (simp add: atan2_def)
qed

lemma haversine_nonneg: "0 \<le> R \<Longrightarrow> 0 \<le> haversine R lat1 lon1 lat2 lon2"
proof -
  assume R: "0 \<le> R"
  let ?a = "sin (toRad (lat2 - lat1) / 2) * sin (toRad (lat2 - lat1) / 2) +
            cos (toRad lat1) * cos (toRad lat2) *
            sin (toRad (lon2 - lon1) / 2) * sin (toRad (lon2 - lon1) / 2)"
  have "toRad (lat2 - lat1) = toRad lat2 - toRad lat1"
    by (simp add: toRad_def left_diff_distrib)
  then have "0 \<le> ?a"
    using haversine_term_nonneg [of "toRad lat2" "toRad lat1" "toRad (lon2 - lon1) / 2"]
    by simp
  then have "0 \<le> atan2 (sqrt ?a) (sqrt (1 - ?a))"
    by (intro atan2_nonneg) simp
  then show ?thesis
    using R by (simp add: haversine_def Let_def)
qed

lemma stopDistance_nonneg: "0 \<le> stopDistance a b"
  by (simp add: stopDistance_def haversineDistance_3959_def haversine_nonneg)

section \<open>The clusters partition the stops that have valid coordinates\<close>

text \<open>
  With a draw \<open>0 \<le> u < 1\<close> and at least one valid stop, the first centroid is a valid
  stop, every round of the seeding loop finds a farthest stop (the least distance to a
  centroid is not negative, so it exceeds the initial \<open>-1\<close>), and the loop ends with
  \<open>numClusters\<close> centroids. Each valid stop then goes into the cluster of one centroid.
\<close>

lemma random_stop_in_range:
  assumes "0 \<le> u" "u < 1" "validStops \<noteq> []"
  shows "\<exists>c. random_stop u validStops = Some c \<and> c \<in> set validStops"
proof -
  let ?n = "real (length validStops)"
  have n: "0 < ?n" using assms(3) by simp
  have "0 \<le> u * ?n" using assms(1) by simp
  then have lo: "0 \<le> \<lfloor>u * ?n\<rfloor>" by simp
  have "u * ?n < 1 * ?n" using assms(2) n by (intro mult_strict_right_mono) simp_all
  then have "u * ?n < real_of_int (int (length validStops))" by simp
  then have "\<lfloor>u * ?n\<rfloor> < int (length validStops)" by (simp only: floor_less_iff)
  then have hi: "nat \<lfloor>u * ?n\<rfloor> < length validStops" using lo by linarith
  show ?thesis
    using lo hi by (simp add: random_stop_def Let_def)
qed

lemma min_distance_nonneg:
  assumes "centroids \<noteq> []"
  shows "0 \<le> Min (set (map (\<lambda>c. stopDistance stop c) centroids))"
proof -
  have "finite (set (map (\<lambda>c. stopDistance stop c) centroids))"
       "set (map (\<lambda>c. stopDistance stop c) centroids) \<noteq> {}"
    using assms by simp_all
  then have "Min (set (map (\<lambda>c. stopDistance stop c) centroids))
               \<in> set (map (\<lambda>c. stopDistance stop c) centroids)"
    by (rule Min_in)
  then show ?thesis
    by (auto simp: stopDistance_nonneg)
qed

lemma farthest_fold:
  assumes "centroids \<noteq> []" "snd st = None \<longrightarrow> fst st < 0"
  shows "(snd (fold (farthest_step centroids) vs st) = None \<longrightarrow>
            fst (fold (farthest_step centroids) vs st) < 0 \<and> vs = []) \<and>
         (\<forall>f. snd (fold (farthest_step centroids) vs st) = Some f \<longrightarrow>
            snd st = Some f \<or> f \<in> set vs)"
  using assms(2)
proof (induction vs arbitrary: st)
  case Nil
  then show ?case by simp
next
  case (Cons v vs)
  let ?st = "farthest_step centroids v st"
  have m: "0 \<le> Min (set (map (\<lambda>c. stopDistance v c) centroids))"
    by (rule min_distance_nonneg [OF assms(1)])
  have a: "snd ?st \<noteq> None"
    using m Cons.prems by (cases "snd st") (auto simp: farthest_step_def Let_def)
  then have b: "snd ?st = None \<longrightarrow> fst ?st < 0"
    by blast
  have c: "\<forall>f. snd ?st = Some f \<longrightarrow> snd st = Some f \<or> f = v"
    by (auto simp: farthest_step_def Let_def)
  note ih = Cons.IH [OF b]
  have d: "snd (fold (farthest_step centroids) vs ?st) \<noteq> None"
    using ih a by (cases vs) auto
  show ?case
    using ih c d by simp blast
qed

lemma farthest_found:
  assumes "centroids \<noteq> []" "validStops \<noteq> []"
  shows "\<exists>f. snd (fold (farthest_step centroids) validStops (- 1, None)) = Some f \<and>
             f \<in> set validStops"
proof -
  have "snd (- 1 :: real, None :: stop option) = None \<longrightarrow>
        fst (- 1 :: real, None :: stop option) < 0"
    by simp
  from farthest_fold [OF assms(1) this, of validStops] assms(2)
  show ?thesis
    by (cases "snd (fold (farthest_step centroids) validStops (- 1, None))") auto
qed

lemma seed_centroids_returns:
  assumes "validStops \<noteq> []" "centroids \<noteq> []" "int (length centroids) \<le> numClusters"
  shows "\<exists>cs. seed_centroids validStops numClusters centroids = Some cs \<and>
              int (length cs) = numClusters \<and> cs \<noteq> []"
  using assms(2,3)
proof (induction "nat (numClusters - int (length centroids))" arbitrary: centroids
        rule: less_induct)
  case less
  show ?case
  proof (cases "int (length centroids) < numClusters")
    case False
    then show ?thesis
      using less.prems by (subst seed_centroids.simps) simp
  next
    case True
    obtain f where f: "snd (fold (farthest_step centroids) validStops (- 1, None)) = Some f"
      using farthest_found [OF less.prems(1) assms(1)] by blast
    let ?cs = "centroids @ [f]"
    have "nat (numClusters - int (length ?cs)) < nat (numClusters - int (length centroids))"
      using True by simp
    moreover have "?cs \<noteq> []" "int (length ?cs) \<le> numClusters"
      using True by simp_all
    ultimately obtain cs where cs: "seed_centroids validStops numClusters ?cs = Some cs"
      "int (length cs) = numClusters" "cs \<noteq> []"
      using less.hyps [of ?cs] by blast
    have "seed_centroids validStops numClusters centroids =
          seed_centroids validStops numClusters ?cs"
      using True f by (subst seed_centroids.simps) simp
    then show ?thesis
      using cs by simp
  qed
qed

lemma nearest_fold_bound:
  "fst st < n \<Longrightarrow> set is \<subseteq> {0..<n} \<Longrightarrow>
   fst (fold (nearest_step centroids stop) is st) < n"
  by (induction "is" arbitrary: st) (auto simp: nearest_step_def Let_def)

lemma nearest_cluster_bound:
  "centroids \<noteq> [] \<Longrightarrow> nearest_cluster centroids stop < length centroids"
  unfolding nearest_cluster_def
  by (rule nearest_fold_bound) simp_all

lemma mset_concat_update:
  assumes "k < length clusters"
  shows "mset (concat (clusters[k := clusters ! k @ [s]])) = mset (concat clusters) + {#s#}"
proof -
  have "clusters = take k clusters @ clusters ! k # drop (Suc k) clusters"
    using assms by (rule id_take_nth_drop)
  then have "mset (concat clusters) =
             mset (concat (take k clusters)) + mset (clusters ! k) +
             mset (concat (drop (Suc k) clusters))"
    by (metis concat.simps(2) concat_append mset_append union_assoc)
  moreover have "clusters[k := clusters ! k @ [s]] =
                 take k clusters @ (clusters ! k @ [s]) # drop (Suc k) clusters"
    using assms by (rule upd_conv_take_nth_drop)
  then have "mset (concat (clusters[k := clusters ! k @ [s]])) =
             mset (concat (take k clusters)) + mset (clusters ! k @ [s]) +
             mset (concat (drop (Suc k) clusters))"
    by (metis concat.simps(2) concat_append mset_append union_assoc)
  ultimately show ?thesis
    by simp
qed

lemma assign_fold:
  assumes "centroids \<noteq> []" "length centroids \<le> length clusters"
  shows "length (fold (assign_stop centroids) vs clusters) = length clusters \<and>
         mset (concat (fold (assign_stop centroids) vs clusters)) =
           mset (concat clusters) + mset vs"
  using assms(2)
proof (induction vs arbitrary: clusters)
  case Nil
  then show ?case by simp
next
  case (Cons v vs)
  let ?k = "nearest_cluster centroids v"
  let ?cl = "assign_stop centroids v clusters"
  have k: "?k < length clusters"
    using nearest_cluster_bound [OF assms(1), of v] Cons.prems by simp
  have l: "length ?cl = length clusters"
    by (simp add: assign_stop_def Let_def)
  have m: "mset (concat ?cl) = mset (concat clusters) + {#v#}"
    using mset_concat_update [OF k] by (simp add: assign_stop_def Let_def)
  have "length centroids \<le> length ?cl"
    using l Cons.prems by simp
  from Cons.IH [OF this] l m show ?case
    by simp
qed

lemma concat_nonempty_filter: "concat (filter (\<lambda>c. length c > 0) cls) = concat cls"
  by (induction cls) auto

lemma clusterStops_partition:
  assumes "0 \<le> u" "u < 1" "numClusters < int (length stops)" "1 \<le> numClusters"
    and "filter valid_coordinates stops \<noteq> []"
  shows "\<exists>clusters. clusterStops u stops numClusters = Some clusters \<and>
          mset (concat clusters) = mset (filter valid_coordinates stops) \<and>
          (\<forall>c \<in> set clusters. c \<noteq> []) \<and> int (length clusters) \<le> numClusters"
proof -
  let ?vs = "filter valid_coordinates stops"
  obtain first where first: "random_stop u ?vs = Some first"
    using random_stop_in_range [OF assms(1,2,5)] by blast
  have "int (length [first]) \<le> numClusters"
    using assms(4) by simp
  then obtain cs where cs: "seed_centroids ?vs numClusters [first] = Some cs"
    "int (length cs) = numClusters" "cs \<noteq> []"
    using seed_centroids_returns [OF assms(5), of "[first]" numClusters] by blast
  let ?cl = "fold (assign_stop cs) ?vs (replicate (nat numClusters) [])"
  have "length cs \<le> length (replicate (nat numClusters) ([] :: stop list))"
    using cs(2) by simp
  from assign_fold [OF cs(3) this, of ?vs]
  have l: "length ?cl = nat numClusters" and m: "mset (concat ?cl) = mset ?vs"
    by simp_all
  let ?res = "filter (\<lambda>c. length c > 0) ?cl"
  have r: "clusterStops u stops numClusters = Some ?res"
    using assms(3,4) first cs(1) by (auto simp: clusterStops_def Let_def)
  have "mset (concat ?res) = mset ?vs"
    using m by (simp only: concat_nonempty_filter)
  moreover have "\<forall>c \<in> set ?res. c \<noteq> []"
    by auto
  moreover have "length ?res \<le> length ?cl"
    by (rule length_filter_le)
  then have "int (length ?res) \<le> numClusters"
    using l assms(4) by simp
  ultimately show ?thesis
    using r by blast
qed

lemma cluster_example:
  "clusterStops 0 [stop_at 5 0 5, stop_at 2 1 1] 1 = Some [[stop_at 2 1 1]]"
proof -
  have f: "filter valid_coordinates [stop_at 5 0 5, stop_at 2 1 1] = [stop_at 2 1 1]"
    by (simp add: valid_coordinates_def)
  have r: "random_stop 0 [stop_at 2 1 1] = Some (stop_at 2 1 1)"
    by (simp add: random_stop_def)
  have s: "seed_centroids [stop_at 2 1 1] 1 [stop_at 2 1 1] = Some [stop_at 2 1 1]"
    by (subst seed_centroids.simps) simp
  have n: "nearest_cluster [stop_at 2 1 1] (stop_at 2 1 1) = 0"
    by (simp add: nearest_cluster_def nearest_step_def Let_def)
  show ?thesis
    by (simp add: clusterStops_def valid_coordinates_def r s n assign_stop_def Let_def)
qed

text \<open>
  C6, as the code has it. For \<open>numClusters \<ge> 1\<close>: an empty stop list gives no cluster;
  a stop count of at most \<open>numClusters\<close> gives one singleton cluster per stop, in input
  order; otherwise, when at least one stop has valid coordinates, the clusterer returns
  clusters that hold exactly the stops with valid coordinates, each once, every cluster
  non-empty and at most \<open>numClusters\<close> of them. Stops that fail the coordinate filter are
  not in any cluster.
\<close>

theorem clusters_partition_valid_stops:
  "1 \<le> numClusters \<and> 0 \<le> u \<and> u < 1 \<longrightarrow>
     (stops = [] \<longrightarrow> clusterStops u stops numClusters = Some []) \<and>
     (stops \<noteq> [] \<and> int (length stops) \<le> numClusters \<longrightarrow>
        clusterStops u stops numClusters = Some (map (\<lambda>stop. [stop]) stops)) \<and>
     (numClusters < int (length stops) \<and> filter valid_coordinates stops \<noteq> [] \<longrightarrow>
        (\<exists>clusters. clusterStops u stops numClusters = Some clusters \<and>
           mset (concat clusters) = mset (filter valid_coordinates stops) \<and>
           (\<forall>c \<in> set clusters. c \<noteq> []) \<and> int (length clusters) \<le> numClusters))"
proof (intro impI conjI)
  assume h: "1 \<le> numClusters \<and> 0 \<le> u \<and> u < 1"
  show "clusterStops u stops numClusters = Some []" if "stops = []"
    using that by (simp add: clusterStops_def)
  show "clusterStops u stops numClusters = Some (map (\<lambda>stop. [stop]) stops)"
    if "stops \<noteq> [] \<and> int (length stops) \<le> numClusters"
    using that h by (simp add: clusterStops_def)
  show "\<exists>clusters. clusterStops u stops numClusters = Some clusters \<and>
           mset (concat clusters) = mset (filter valid_coordinates stops) \<and>
           (\<forall>c \<in> set clusters. c \<noteq> []) \<and> int (length clusters) \<le> numClusters"
    if "numClusters < int (length stops) \<and> filter valid_coordinates stops \<noteq> []"
    using that h clusterStops_partition [of u numClusters stops] by blast
qed

theorem clusters_partition_valid_stops_witness:
  "(1 :: int) \<le> 1 \<and> (0 :: real) \<le> 0 \<and> (0 :: real) < 1 \<and>
   clusterStops 0 [] 1 = Some [] \<and>
   [stop_at 5 0 5, stop_at 2 1 1] \<noteq> [] \<and> int (length [stop_at 5 0 5, stop_at 2 1 1]) \<le> 5 \<and>
   clusterStops 0 [stop_at 5 0 5, stop_at 2 1 1] 5 = Some [[stop_at 5 0 5], [stop_at 2 1 1]] \<and>
   1 < int (length [stop_at 5 0 5, stop_at 2 1 1]) \<and>
   filter valid_coordinates [stop_at 5 0 5, stop_at 2 1 1] = [stop_at 2 1 1] \<and>
   (\<exists>clusters. clusterStops 0 [stop_at 5 0 5, stop_at 2 1 1] 1 = Some clusters \<and>
      mset (concat clusters) = mset [stop_at 2 1 1] \<and> list_all (\<lambda>c. c \<noteq> []) clusters \<and>
      int (length clusters) \<le> 1)"
proof -
  have f: "filter valid_coordinates [stop_at 5 0 5, stop_at 2 1 1] = [stop_at 2 1 1]"
    by (simp add: valid_coordinates_def)
  have h: "(1 :: int) \<le> 1 \<and> (0 :: real) \<le> 0 \<and> (0 :: real) < 1" "(1 :: int) \<le> 5 \<and> (0 :: real) \<le> 0 \<and> (0 :: real) < 1"
    by simp_all
  note t0 = clusters_partition_valid_stops [where numClusters = 1 and u = 0 and stops = "[]", THEN mp, OF h(1)]
  note t1 = clusters_partition_valid_stops [where numClusters = 5 and u = 0
      and stops = "[stop_at 5 0 5, stop_at 2 1 1]", THEN mp, OF h(2)]
  note t2 = clusters_partition_valid_stops [where numClusters = 1 and u = 0
      and stops = "[stop_at 5 0 5, stop_at 2 1 1]", THEN mp, OF h(1)]
  have a: "clusterStops 0 [] 1 = Some []"
    using t0 by simp
  have b: "clusterStops 0 [stop_at 5 0 5, stop_at 2 1 1] 5 = Some [[stop_at 5 0 5], [stop_at 2 1 1]]"
    using t1 [THEN conjunct2, THEN conjunct1] by simp
  have c: "\<exists>clusters. clusterStops 0 [stop_at 5 0 5, stop_at 2 1 1] 1 = Some clusters \<and>
      mset (concat clusters) = mset [stop_at 2 1 1] \<and> list_all (\<lambda>c. c \<noteq> []) clusters \<and>
      int (length clusters) \<le> 1"
    using t2 [THEN conjunct2, THEN conjunct2] unfolding f by (simp add: list_all_iff)
  show ?thesis
    using a b c f by simp
qed

text \<open>
  The claim as stated, with every input stop in exactly one cluster, fails: a stop with
  latitude 0 is filtered out when there are more stops than clusters. With no valid stop
  at all and two clusters requested the seeding loop does not end.
\<close>

theorem clusters_drop_stops_counterexample:
  "clusterStops 0 [stop_at 5 0 5, stop_at 2 1 1] 1 = Some [[stop_at 2 1 1]] \<and>
   mset (concat [[stop_at 2 1 1]]) \<noteq> mset [stop_at 5 0 5, stop_at 2 1 1] \<and>
   clusterStops 0 [stop_at 5 0 5, stop_at 6 0 6, stop_at 7 7 0] 2 = None"
proof -
  have "filter valid_coordinates [stop_at 5 0 5, stop_at 6 0 6, stop_at 7 7 0] = []"
    by (simp add: valid_coordinates_def)
  have "clusterStops 0 [stop_at 5 0 5, stop_at 6 0 6, stop_at 7 7 0] 2 = None"
    by (simp add: clusterStops_def random_stop_def valid_coordinates_def)
  then show ?thesis
    using cluster_example by simp
qed

section \<open>Determinism, and the random first centroid\<close>

text \<open>
  Nearest neighbour and 2-opt have no source of randomness: they are functions of the
  matrix and the route. The scan of nearest neighbour takes the unvisited index of least
  distance, and the lowest such index when several are equally near.
\<close>

definition scan_state_ok :: "matrix \<Rightarrow> nat \<Rightarrow> nat list \<Rightarrow> nat \<Rightarrow> nat option \<times> real option \<Rightarrow> bool" where
  "scan_state_ok m cur visited n st =
     (case st of
        (None, None) \<Rightarrow> (\<forall>i<n. i \<in> set visited)
      | (Some k, Some d) \<Rightarrow>
          k < n \<and> k \<notin> set visited \<and> d = m ! cur ! k \<and>
          (\<forall>i<n. i \<notin> set visited \<longrightarrow> d \<le> m ! cur ! i \<and> (m ! cur ! i = d \<longrightarrow> k \<le> i))
      | _ \<Rightarrow> False)"

lemma scan_state_step:
  assumes "scan_state_ok m cur visited n st"
  shows "scan_state_ok m cur visited (Suc n) (nn_scan_step m cur visited n st)"
proof (cases "n \<in> set visited")
  case True
  then have "nn_scan_step m cur visited n st = st"
    by (simp add: nn_scan_step_def)
  then show ?thesis
    using assms True
    by (auto simp: scan_state_ok_def less_Suc_eq split: option.splits prod.splits)
next
  case False
  show ?thesis
  proof (cases st)
    case (Pair a b)
    show ?thesis
    proof (cases "below (m ! cur ! n) b")
      case True
      then have "nn_scan_step m cur visited n st = (Some n, Some (m ! cur ! n))"
        using False Pair by (simp add: nn_scan_step_def)
      then show ?thesis
        using assms False Pair True
        by (cases a; cases b) (auto simp: scan_state_ok_def less_Suc_eq)
    next
      case nb: False
      then have "nn_scan_step m cur visited n st = st"
        using Pair by (simp add: nn_scan_step_def)
      then show ?thesis
        using assms False Pair nb
        by (cases a; cases b) (auto simp: scan_state_ok_def less_Suc_eq)
    qed
  qed
qed

lemma scan_state_fold:
  "scan_state_ok m cur visited n (fold (nn_scan_step m cur visited) [0..<n] (None, None))"
proof (induction n)
  case 0
  show ?case by (simp add: scan_state_ok_def)
next
  case (Suc n)
  then show ?case
    by (simp add: scan_state_step)
qed

lemma nn_scan_lowest_nearest:
  assumes "nn_scan m cur visited [0..<n] = Some k"
  shows "k < n \<and> k \<notin> set visited \<and>
         (\<forall>i<n. i \<notin> set visited \<longrightarrow>
            m ! cur ! k \<le> m ! cur ! i \<and> (m ! cur ! i = m ! cur ! k \<longrightarrow> k \<le> i))"
proof -
  let ?st = "fold (nn_scan_step m cur visited) [0..<n] (None, None)"
  have "scan_state_ok m cur visited n ?st"
    by (rule scan_state_fold)
  moreover have "fst ?st = Some k"
    using assms by (simp add: nn_scan_def)
  ultimately show ?thesis
    by (cases ?st; cases "snd ?st") (auto simp: scan_state_ok_def split: option.splits)
qed

lemma random_stop_floor:
  "\<lfloor>u * real (length vs)\<rfloor> = \<lfloor>u' * real (length vs)\<rfloor> \<Longrightarrow> random_stop u vs = random_stop u' vs"
  by (simp add: random_stop_def)

lemma clusterStops_random_stop:
  "random_stop u (filter valid_coordinates stops) = random_stop u' (filter valid_coordinates stops)
   \<Longrightarrow> clusterStops u stops numClusters = clusterStops u' stops numClusters"
  by (simp add: clusterStops_def)

lemma clusterStops_no_draw:
  "stops = [] \<or> numClusters \<le> 0 \<or> int (length stops) \<le> numClusters \<Longrightarrow>
   clusterStops u stops numClusters = clusterStops u' stops numClusters"
  by (auto simp: clusterStops_def)

lemma haversine_one_degree_north: "0 < haversineDistance_3959 1 1 2 1"
proof -
  let ?t = "toRad (2 - 1) / 2"
  have t: "0 < ?t" "?t < pi"
    using pi_gt_zero by (simp_all add: toRad_def)
  have s: "0 < sin ?t"
    using t by (rule sin_gt_zero)
  then have "0 < sin ?t * sin ?t"
    by simp
  then have "0 < sqrt (sin ?t * sin ?t)"
    by (simp only: real_sqrt_gt_0_iff)
  then have "0 < atan2 (sqrt (sin ?t * sin ?t)) (sqrt (1 - sin ?t * sin ?t))"
    by (rule atan2_pos)
  moreover have "toRad 0 = 0"
    by (simp add: toRad_def)
  ultimately show ?thesis
    by (simp add: haversineDistance_3959_def haversine_def Let_def)
qed

lemma haversine_example_values:
  "haversineDistance_3959 a b a b = 0"
  "haversineDistance_3959 2 1 1 1 = haversineDistance_3959 1 1 2 1"
  by (simp_all add: haversineDistance_3959_def haversine_self haversine_sym [of 3959 2 1 1 1])

definition stop_A :: stop where "stop_A = stop_at 2 1 1"
definition stop_B :: stop where "stop_B = stop_at 3 1 1"
definition stop_C :: stop where "stop_C = stop_at 4 2 1"

lemma example_distances:
  "stopDistance stop_A stop_A = 0" "stopDistance stop_A stop_B = 0"
  "stopDistance stop_B stop_A = 0" "stopDistance stop_B stop_B = 0"
  "stopDistance stop_C stop_C = 0"
  "stopDistance stop_A stop_C = haversineDistance_3959 1 1 2 1"
  "stopDistance stop_B stop_C = haversineDistance_3959 1 1 2 1"
  "stopDistance stop_C stop_A = haversineDistance_3959 1 1 2 1"
  "stopDistance stop_C stop_B = haversineDistance_3959 1 1 2 1"
  by (simp_all add: stopDistance_def stop_A_def stop_B_def stop_C_def haversine_example_values)

lemma example_valid:
  "valid_coordinates stop_A" "valid_coordinates stop_B" "valid_coordinates stop_C"
  by (simp_all add: valid_coordinates_def stop_A_def stop_B_def stop_C_def)

lemma example_distinct: "stop_A \<noteq> stop_C" "stop_C \<noteq> stop_A"
  by (simp_all add: stop_A_def stop_C_def stop_at_def)

lemma example_first_draw:
  "clusterStops 0 [stop_A, stop_B, stop_C] 2 = Some [[stop_A, stop_B], [stop_C]]"
proof -
  note d = example_distances haversine_one_degree_north
  have r: "random_stop 0 [stop_A, stop_B, stop_C] = Some stop_A"
    by (simp add: random_stop_def)
  have f: "snd (farthest_step [stop_A] stop_C (farthest_step [stop_A] stop_B
                 (farthest_step [stop_A] stop_A (- 1, None)))) = Some stop_C"
    using haversine_one_degree_north by (simp add: farthest_step_def Let_def example_distances)
  have s2: "seed_centroids [stop_A, stop_B, stop_C] 2 [stop_A, stop_C] = Some [stop_A, stop_C]"
    by (subst seed_centroids.simps) simp
  have s: "seed_centroids [stop_A, stop_B, stop_C] 2 [stop_A] = Some [stop_A, stop_C]"
    by (subst seed_centroids.simps) (simp add: f s2)
  have n: "nearest_cluster [stop_A, stop_C] stop_A = 0"
    "nearest_cluster [stop_A, stop_C] stop_B = 0"
    "nearest_cluster [stop_A, stop_C] stop_C = 1"
    using haversine_one_degree_north
    by (simp_all add: nearest_cluster_def nearest_step_def Let_def example_distances upt_rec)
  have "fold (assign_stop [stop_A, stop_C]) [stop_A, stop_B, stop_C] (replicate (nat 2) []) =
        [[stop_A, stop_B], [stop_C]]"
    by (simp add: assign_stop_def Let_def n eval_nat_numeral)
  then show ?thesis
    by (simp add: clusterStops_def example_valid r s Let_def)
qed

lemma example_last_draw:
  "clusterStops (9 / 10) [stop_A, stop_B, stop_C] 2 = Some [[stop_C], [stop_A, stop_B]]"
proof -
  have "\<lfloor>(27 :: real) / 10\<rfloor> = 2"
    by linarith
  then have r: "random_stop (9 / 10) [stop_A, stop_B, stop_C] = Some stop_C"
    by (simp add: random_stop_def)
  have f: "snd (farthest_step [stop_C] stop_C (farthest_step [stop_C] stop_B
                 (farthest_step [stop_C] stop_A (- 1, None)))) = Some stop_A"
    using haversine_one_degree_north by (simp add: farthest_step_def Let_def example_distances)
  have s2: "seed_centroids [stop_A, stop_B, stop_C] 2 [stop_C, stop_A] = Some [stop_C, stop_A]"
    by (subst seed_centroids.simps) simp
  have s: "seed_centroids [stop_A, stop_B, stop_C] 2 [stop_C] = Some [stop_C, stop_A]"
    by (subst seed_centroids.simps) (simp add: f s2)
  have n: "nearest_cluster [stop_C, stop_A] stop_A = 1"
    "nearest_cluster [stop_C, stop_A] stop_B = 1"
    "nearest_cluster [stop_C, stop_A] stop_C = 0"
    using haversine_one_degree_north
    by (simp_all add: nearest_cluster_def nearest_step_def Let_def example_distances upt_rec)
  have "fold (assign_stop [stop_C, stop_A]) [stop_A, stop_B, stop_C] (replicate (nat 2) []) =
        [[stop_C], [stop_A, stop_B]]"
    by (simp add: assign_stop_def Let_def n eval_nat_numeral)
  then show ?thesis
    by (simp add: clusterStops_def example_valid r s Let_def)
qed

definition tie_matrix :: matrix where
  "tie_matrix = [[0, 3, 3], [3, 0, 1], [3, 1, 0]]"

text \<open>
  C2, as the code has it. Nearest neighbour and 2-opt are deterministic: the scan picks the
  nearest unvisited index, the lowest one on ties. The clusterer draws its first centroid
  with \<open>Math.random()\<close>: two runs give the same clusters when their draws select the same
  index of the valid stops, and always when no draw is made (no stops, a cluster count
  that is not positive, or at most as many stops as clusters).
\<close>

theorem deterministic_except_first_centroid:
  "(length m = n \<and> cur < n \<and> (\<forall>row \<in> set m. length row = n) \<and>
    nn_scan m cur visited [0..<n] = Some k \<longrightarrow>
      k < n \<and> k \<notin> set visited \<and>
      (\<forall>i<n. i \<notin> set visited \<longrightarrow>
         m ! cur ! k \<le> m ! cur ! i \<and> (m ! cur ! i = m ! cur ! k \<longrightarrow> k \<le> i))) \<and>
   (\<lfloor>u * real (length (filter valid_coordinates stops))\<rfloor> =
    \<lfloor>u' * real (length (filter valid_coordinates stops))\<rfloor> \<longrightarrow>
      clusterStops u stops numClusters = clusterStops u' stops numClusters) \<and>
   (stops = [] \<or> numClusters \<le> 0 \<or> int (length stops) \<le> numClusters \<longrightarrow>
      clusterStops u stops numClusters = clusterStops u' stops numClusters)"
proof (intro conjI impI)
  assume "length m = n \<and> cur < n \<and> (\<forall>row \<in> set m. length row = n) \<and>
    nn_scan m cur visited [0..<n] = Some k"
  then have "nn_scan m cur visited [0..<n] = Some k"
    by blast
  from nn_scan_lowest_nearest [OF this]
  show "k < n" "k \<notin> set visited"
    "\<forall>i<n. i \<notin> set visited \<longrightarrow>
       m ! cur ! k \<le> m ! cur ! i \<and> (m ! cur ! i = m ! cur ! k \<longrightarrow> k \<le> i)"
    by blast+
next
  assume "\<lfloor>u * real (length (filter valid_coordinates stops))\<rfloor> =
          \<lfloor>u' * real (length (filter valid_coordinates stops))\<rfloor>"
  then have "random_stop u (filter valid_coordinates stops) =
             random_stop u' (filter valid_coordinates stops)"
    by (rule random_stop_floor)
  then show "clusterStops u stops numClusters = clusterStops u' stops numClusters"
    by (rule clusterStops_random_stop)
next
  assume "stops = [] \<or> numClusters \<le> 0 \<or> int (length stops) \<le> numClusters"
  then show "clusterStops u stops numClusters = clusterStops u' stops numClusters"
    by (rule clusterStops_no_draw)
qed

theorem deterministic_except_first_centroid_witness:
  "nn_scan tie_matrix 0 [0] [0..<3] = Some 1 \<and>
   tie_matrix ! 0 ! 1 = tie_matrix ! 0 ! 2 \<and> (1 :: nat) \<le> 2 \<and>
   \<lfloor>(1 / 10) * real (length (filter valid_coordinates [stop_A, stop_B, stop_C]))\<rfloor> =
   \<lfloor>(2 / 10) * real (length (filter valid_coordinates [stop_A, stop_B, stop_C]))\<rfloor> \<and>
   clusterStops (1 / 10) [stop_A, stop_B, stop_C] 2 =
   clusterStops (2 / 10) [stop_A, stop_B, stop_C] 2 \<and>
   int (length [stop_A, stop_B, stop_C]) \<le> 3 \<and>
   clusterStops 0 [stop_A, stop_B, stop_C] 3 = clusterStops (9 / 10) [stop_A, stop_B, stop_C] 3"
proof -
  have sc: "nn_scan tie_matrix 0 [0] [0..<3] = Some 1"
    by (simp add: nn_scan_def nn_scan_step_def tie_matrix_def upt_rec)
  have tie: "tie_matrix ! 0 ! 1 = tie_matrix ! 0 ! 2"
    by (simp add: tie_matrix_def)
  have "\<lfloor>(3 :: real) / 10\<rfloor> = 0" "\<lfloor>(6 :: real) / 10\<rfloor> = 0"
    by linarith+
  then have fl: "\<lfloor>(1 / 10) * real (length (filter valid_coordinates [stop_A, stop_B, stop_C]))\<rfloor> =
    \<lfloor>(2 / 10) * real (length (filter valid_coordinates [stop_A, stop_B, stop_C]))\<rfloor>"
    by (simp add: example_valid)
  have le: "int (length [stop_A, stop_B, stop_C]) \<le> 3"
    by simp
  note t1 = deterministic_except_first_centroid [where m = tie_matrix and cur = 0
      and visited = "[0]" and n = 3 and k = 1 and u = "1 / 10" and u' = "2 / 10"
      and stops = "[stop_A, stop_B, stop_C]" and numClusters = 2]
  note t2 = deterministic_except_first_centroid [where u = 0 and u' = "9 / 10"
      and stops = "[stop_A, stop_B, stop_C]" and numClusters = 3]
  have a: "clusterStops (1 / 10) [stop_A, stop_B, stop_C] 2 =
           clusterStops (2 / 10) [stop_A, stop_B, stop_C] 2"
    using t1 [THEN conjunct2, THEN conjunct1] fl by blast
  have b: "clusterStops 0 [stop_A, stop_B, stop_C] 3 =
           clusterStops (9 / 10) [stop_A, stop_B, stop_C] 3"
    using t2 [THEN conjunct2, THEN conjunct2] le by blast
  have sq: "length tie_matrix = 3 \<and> (0 :: nat) < 3 \<and> (\<forall>row \<in> set tie_matrix. length row = 3)"
    by (simp add: tie_matrix_def)
  have c: "(1 :: nat) \<le> 2"
    using t1 [THEN conjunct1] sq sc tie by simp
  show ?thesis
    by (intro conjI) (rule sc, rule tie, rule c, rule fl, rule a, rule le, rule b)
qed

text \<open>
  The claim as stated, with a first centroid chosen by a deterministic rule, fails: on the
  same three stops and two clusters, the draw 0 and the draw 0.9 give different clusters.
\<close>

theorem random_first_centroid_counterexample:
  "(0 :: real) \<le> 0 \<and> (0 :: real) < 1 \<and> (0 :: real) \<le> 9 / 10 \<and> (9 / 10 :: real) < 1 \<and>
   clusterStops 0 [stop_A, stop_B, stop_C] 2 = Some [[stop_A, stop_B], [stop_C]] \<and>
   clusterStops (9 / 10) [stop_A, stop_B, stop_C] 2 = Some [[stop_C], [stop_A, stop_B]] \<and>
   clusterStops 0 [stop_A, stop_B, stop_C] 2 \<noteq> clusterStops (9 / 10) [stop_A, stop_B, stop_C] 2"
  using example_distinct by (simp add: example_first_draw example_last_draw)

end
